theory Spec2Isabelle
  imports Complex_Main "HOL-Library.Multiset"
begin

section \<open>Giveaway resolution engine of \<^verbatim>\<open>app.js\<close>\<close>

text \<open>
  The development embeds the stateful core of \<^verbatim>\<open>app.js\<close>: \<^verbatim>\<open>resolveGiveaway\<close>, the
  double-down button handler, the double-down timeout callback and the \<^verbatim>\<open>modal_join\<close>
  submission handler.

  Conventions of the embedding.
  \<^item> JavaScript numbers that hold money (pot, stake, payout) are exact reals: IEEE-754
    rounding is not modelled. Guesses, tiebreaks, rolls and timestamps are integers.
  \<^item> The file \<^verbatim>\<open>giveaways.json\<close> is the list \<open>giveaways\<close> of the world; every handler
    loads it, mutates the first giveaway whose id matches and saves the list. Handlers
    run one after the other (no interleaving at \<^verbatim>\<open>await\<close>), and file I/O does not fail.
  \<^item> Random.org is a script of answers, one per call, and a log of the requested ranges.
  \<^item> Discord message edits only matter where the code makes state depend on them
    (the announcement of a winner); their success is an input of the handler.
  \<^item> Presentation fields of a giveaway (title, prize, channel and message ids,
    timestamps) take no part in any decision and are left out.
\<close>

subsection \<open>Data model\<close>

record entry =
  entryId :: "string \<times> int"     \<comment> \<open>user id and clock; joined by \<^verbatim>\<open>-\<close> in the source\<close>
  userId :: string
  username :: string
  main :: int
  tiebreak :: int
  stakeC :: "real option"        \<comment> \<open>\<open>None\<close>: JSON \<^verbatim>\<open>null\<close> or absent\<close>
  choice :: string
  riskProfile :: string
  joinedAt :: int
  doubleDownDeadline :: "int option"

record winner =
  w_userId :: string
  w_username :: string
  w_main :: int
  w_tiebreak :: int
  w_choice :: string
  stake :: real
  payoutC :: real
  baseWinC :: real
  potShareC :: real

text \<open>A property that can be absent (\<^verbatim>\<open>undefined\<close>), \<^verbatim>\<open>null\<close> or set.\<close>

datatype 'a field = Absent | Null | Set_to 'a

datatype result_note =
  Error_note string string       \<comment> \<open>\<^verbatim>\<open>{ error, message }\<close>\<close>
| No_winners int                 \<comment> \<open>\<^verbatim>\<open>{ roll, note: "No winners" }\<close>\<close>
| Resolved int nat               \<comment> \<open>\<^verbatim>\<open>{ roll, resolvedCount }\<close>\<close>

datatype dd_state = Pending | No | Yes_win | Yes_lose

record double_down =
  state :: dd_state
  deadline :: int
  winnerId :: string

record giveaway =
  g_id :: string
  entries :: "entry list"
  pot :: real
  ended :: bool
  roll :: "int option"
  winner :: "winner field"
  result :: "result_note option"
  doubleDown :: "double_down option"

text \<open>
  \<open>riskProfiles c name\<close> is the value of the lookup \<^verbatim>\<open>cfg.riskProfiles[name]\<close>: \<open>None\<close> when
  it is \<^verbatim>\<open>undefined\<close> or \<^verbatim>\<open>null\<close>, \<open>Some None\<close> when it is a value without \<^verbatim>\<open>potSharePercent\<close>
  (as is every property inherited from \<^verbatim>\<open>Object.prototype\<close>), \<open>Some (Some p)\<close> when it is a
  profile with the share \<open>p\<close>.
\<close>

record config =
  houseEdge :: "real option"
  riskProfiles :: "string \<rightharpoonup> real option"

subsection \<open>Random.org\<close>

text \<open>
  \<open>answers n\<close> is what the service does at call number \<open>n\<close>: \<open>Inl message\<close> when the
  request throws, \<open>Inr v\<close> when it returns \<open>v\<close>. \<open>calls\<close> logs the requested ranges.
\<close>

record rand =
  answers :: "nat \<Rightarrow> string + int"
  calls :: "(int \<times> int) list"

definition randomOrgInteger :: "int \<Rightarrow> int \<Rightarrow> rand \<Rightarrow> (string + int) \<times> rand" where
  "randomOrgInteger mn mx r = (answers r (length (calls r)), r\<lparr>calls := calls r @ [(mn, mx)]\<rparr>)"

subsection \<open>The world the handlers run in\<close>

record world =
  giveaways :: "giveaway list"
  cfg :: config
  rnd :: rand
  timers :: "string list"        \<comment> \<open>armed double-down timeouts, by giveaway id\<close>

record env =
  edit_ok :: bool                \<comment> \<open>fetching and editing the announcement message succeeds\<close>
  now :: int                     \<comment> \<open>\<^verbatim>\<open>Date.now()\<close>\<close>

text \<open>
  How a call of \<^verbatim>\<open>resolveGiveaway\<close> ends: it returns, or it throws the \<^verbatim>\<open>TypeError\<close> of
  reading \<^verbatim>\<open>finalWinner.main\<close> when the pick is \<^verbatim>\<open>undefined\<close> (an index outside the array,
  which Random.org does not give for the range requested). Nothing has been saved then.
\<close>

datatype completion = Returns | Throws

definition find_giveaway :: "string \<Rightarrow> giveaway list \<Rightarrow> giveaway option" where
  "find_giveaway gid gs = find (\<lambda>x. g_id x = gid) gs"

text \<open>Saving after mutating the object that \<^verbatim>\<open>find\<close> returned: the first match is replaced.\<close>

fun save_giveaway :: "string \<Rightarrow> giveaway \<Rightarrow> giveaway list \<Rightarrow> giveaway list" where
  "save_giveaway gid g' [] = []"
| "save_giveaway gid g' (x # xs) =
     (if g_id x = gid then g' # xs else x # save_giveaway gid g' xs)"

subsection \<open>Winner selection\<close>

text \<open>A candidate is an entry together with its position in \<^verbatim>\<open>g.entries\<close> (its identity).\<close>

type_synonym cand = "nat \<times> entry"

definition isCandidate :: "int \<Rightarrow> entry \<Rightarrow> bool" where
  "isCandidate r e =
     (if choice e = ''under'' then r \<le> main e
      else if choice e = ''over'' then r \<ge> main e
      else False)"

definition winnersCandidates :: "int \<Rightarrow> entry list \<Rightarrow> cand list" where
  "winnersCandidates r es = filter (\<lambda>c. isCandidate r (snd c)) (enumerate 0 es)"

text \<open>
  \<^verbatim>\<open>Object.keys(grouped)\<close>: keys that are array indices come first, ascending; the other
  keys follow in insertion order.
\<close>

definition isArrayIndex :: "int \<Rightarrow> bool" where
  "isArrayIndex k = (0 \<le> k \<and> k < 4294967295)"

definition objectKeys :: "int list \<Rightarrow> int list" where
  "objectKeys ks =
     sort (remdups (filter isArrayIndex ks)) @
     rev (remdups (rev (filter (\<lambda>k. \<not> isArrayIndex k) ks)))"

definition grouped :: "cand list \<Rightarrow> int \<Rightarrow> cand list" where
  "grouped cs k = filter (\<lambda>c. main (snd c) = k) cs"

text \<open>\<^verbatim>\<open>xs[i]\<close>: \<^verbatim>\<open>undefined\<close> out of range.\<close>

definition at_index :: "'a list \<Rightarrow> int \<Rightarrow> 'a option" where
  "at_index xs i = (if 0 \<le> i \<and> i < int (length xs) then Some (xs ! nat i) else None)"

text \<open>
  \<^verbatim>\<open>arr.sort((a,b) => b.tiebreak - a.tiebreak)\<close>: descending tiebreak, and stable, as
  \<^verbatim>\<open>Array.prototype.sort\<close> is since ECMAScript 2019.
\<close>

definition sortByTiebreak :: "cand list \<Rightarrow> cand list" where
  "sortByTiebreak arr = sort_key (\<lambda>c. - tiebreak (snd c)) arr"

definition tiedTop :: "cand list \<Rightarrow> cand list" where
  "tiedTop arr =
     (case sortByTiebreak arr of
        [] \<Rightarrow> []
      | top0 # rest \<Rightarrow> filter (\<lambda>e. tiebreak (snd e) = tiebreak (snd top0)) (top0 # rest))"

text \<open>The body of the loop over the groups: the entry pushed on \<^verbatim>\<open>resolved\<close>.\<close>

definition resolveGroup :: "cand list \<Rightarrow> rand \<Rightarrow> cand option \<times> rand" where
  "resolveGroup arr r =
     (if length arr = 1 then (at_index arr 0, r)
      else if length (tiedTop arr) = 1 then (at_index (sortByTiebreak arr) 0, r)
      else (case randomOrgInteger 0 (int (length (tiedTop arr)) - 1) r of
              (Inr i, r') \<Rightarrow> (at_index (tiedTop arr) i, r')
            | (Inl msg, r') \<Rightarrow> (at_index (tiedTop arr) 0, r')))"

fun resolveGroups :: "int list \<Rightarrow> cand list \<Rightarrow> rand \<Rightarrow> cand option list \<times> rand" where
  "resolveGroups [] cs r = ([], r)"
| "resolveGroups (k # ks) cs r =
     (case resolveGroup (grouped cs k) r of
        (rep, r1) \<Rightarrow> (case resolveGroups ks cs r1 of (reps, r2) \<Rightarrow> (rep # reps, r2)))"

definition finalWinner :: "cand option list \<Rightarrow> rand \<Rightarrow> cand option \<times> rand" where
  "finalWinner resolved r =
     (if length resolved = 1 then (Option.bind (at_index resolved 0) id, r)
      else (case randomOrgInteger 0 (int (length resolved) - 1) r of
              (Inr idx, r') \<Rightarrow> (Option.bind (at_index resolved idx) id, r')
            | (Inl msg, r') \<Rightarrow> (Option.bind (at_index resolved 0) id, r')))"

subsection \<open>Payout\<close>

definition prob :: "entry \<Rightarrow> real" where
  "prob e =
     (let p = (if choice e = ''under'' then (real_of_int (main e) + 1) / 101
               else (101 - real_of_int (main e)) / 101)
      in if p \<le> 0 then 1 / 101 else p)"

definition multiplier :: "config \<Rightarrow> entry \<Rightarrow> real" where
  "multiplier c e = (1 / prob e) * (1 - (case houseEdge c of Some h \<Rightarrow> h | None \<Rightarrow> 2 / 100))"

definition stakeOf :: "entry \<Rightarrow> real" where
  "stakeOf e = (case stakeC e of Some s \<Rightarrow> s | None \<Rightarrow> 1)"

definition baseWin :: "config \<Rightarrow> entry \<Rightarrow> real" where
  "baseWin c e = real_of_int \<lfloor>stakeOf e * multiplier c e * 100\<rfloor> / 100"

definition potSharePercent :: "config \<Rightarrow> entry \<Rightarrow> real" where
  "potSharePercent c e =
     (case (case riskProfiles c (riskProfile e) of
              Some profile \<Rightarrow> Some profile
            | None \<Rightarrow> riskProfiles c ''low'') of
        Some (Some p) \<Rightarrow> p
      | _ \<Rightarrow> 0)"

definition potShareAmount :: "config \<Rightarrow> real \<Rightarrow> entry \<Rightarrow> real" where
  "potShareAmount c p e = real_of_int \<lfloor>p * (potSharePercent c e / 100)\<rfloor>"

definition winnerRecord :: "config \<Rightarrow> real \<Rightarrow> entry \<Rightarrow> winner" where
  "winnerRecord c p e =
     \<lparr> w_userId = userId e, w_username = username e, w_main = main e,
       w_tiebreak = tiebreak e, w_choice = choice e, stake = stakeOf e,
       payoutC = baseWin c e + potShareAmount c p e,
       baseWinC = baseWin c e,
       potShareC = potShareAmount c p e \<rparr>"

subsection \<open>\<^verbatim>\<open>resolveGiveaway\<close>\<close>

text \<open>
  Lines 186--228: the groups, their representatives and the final pick.
\<close>

definition pickWinner :: "cand list \<Rightarrow> rand \<Rightarrow> (cand option \<times> nat) \<times> rand" where
  "pickWinner cs r =
     (case resolveGroups (objectKeys (map (\<lambda>c. main (snd c)) cs)) cs r of
        (resolved, r1) \<Rightarrow>
          (case finalWinner resolved r1 of (fw, r2) \<Rightarrow> ((fw, length resolved), r2)))"

text \<open>The winner branch, from the payout to the armed timer (lines 234--309).\<close>

definition announce :: "env \<Rightarrow> world \<Rightarrow> giveaway \<Rightarrow> int \<Rightarrow> nat \<Rightarrow> cand \<Rightarrow> rand \<Rightarrow> world" where
  "announce ev w g rl n fw r =
     (let e = snd fw;
          g1 = g\<lparr> pot := max 0 (pot g - potShareAmount (cfg w) (pot g) e),
                  winner := Set_to (winnerRecord (cfg w) (pot g) e),
                  result := Some (Resolved rl n) \<rparr>
      in if edit_ok ev then
           (let dl = now ev + 6 * 60 * 60 * 1000;
                g2 = g1\<lparr> entries := (entries g1)[fst fw := e\<lparr>doubleDownDeadline := Some dl\<rparr>],
                         doubleDown := Some \<lparr> state = Pending, deadline = dl, winnerId = userId e \<rparr> \<rparr>
            in w\<lparr> giveaways := save_giveaway (g_id g) g2 (giveaways w), rnd := r,
                   timers := timers w @ [g_id g] \<rparr>)
         else w\<lparr> giveaways := save_giveaway (g_id g) g1 (giveaways w), rnd := r \<rparr>)"

definition resolveGiveaway :: "string \<Rightarrow> env \<Rightarrow> world \<Rightarrow> completion \<times> world" where
  "resolveGiveaway gid ev w =
     (case find_giveaway gid (giveaways w) of
        None \<Rightarrow> (Returns, w)
      | Some g0 \<Rightarrow>
          if ended g0 then (Returns, w)
          else
            (let g = g0\<lparr>ended := True\<rparr> in
             case randomOrgInteger 0 100 (rnd w) of
               (Inl msg, r1) \<Rightarrow>
                 (Returns,
                  w\<lparr> giveaways :=
                       save_giveaway gid (g\<lparr>result := Some (Error_note ''random.org failed'' msg)\<rparr>)
                         (giveaways w),
                     rnd := r1 \<rparr>)
             | (Inr rl, r1) \<Rightarrow>
                 (let g = g\<lparr>roll := Some rl\<rparr>;
                      cs = winnersCandidates rl (entries g)
                  in if length cs = 0 then
                       (Returns,
                        w\<lparr> giveaways :=
                             save_giveaway gid (g\<lparr>winner := Null, result := Some (No_winners rl)\<rparr>)
                               (giveaways w),
                           rnd := r1 \<rparr>)
                     else
                       (case pickWinner cs r1 of
                          ((None, n), r2) \<Rightarrow> (Throws, w\<lparr>rnd := r2\<rparr>)
                        | ((Some fw, n), r2) \<Rightarrow> (Returns, announce ev w g rl n fw r2)))))"

subsection \<open>Double down: the buttons and the timeout\<close>

datatype dd_action = Dd_yes | Dd_no

text \<open>What a handler answers through \<^verbatim>\<open>interaction.reply\<close>.\<close>

datatype reply =
  Giveaway_or_winner_not_found
| Only_the_winner
| No_longer_available
| Declined
| Double_down_win real
| Double_down_lose real
| Random_failed
| Invalid_main
| Invalid_tiebreak
| Invalid_choice
| Invalid_risk
| Giveaway_not_found
| Giveaway_already_ended
| Joined

text \<open>
  The button's custom id is \<^verbatim>\<open>dd_yes:<gid>:<winnerId>\<close> or \<^verbatim>\<open>dd_no:<gid>:<winnerId>\<close>;
  \<open>user\<close> is the id of the user who clicked.
\<close>

definition ddButton :: "dd_action \<Rightarrow> string \<Rightarrow> string \<Rightarrow> string \<Rightarrow> world \<Rightarrow> reply \<times> world" where
  "ddButton act gid wid user w =
     (case find_giveaway gid (giveaways w) of
        None \<Rightarrow> (Giveaway_or_winner_not_found, w)
      | Some g \<Rightarrow>
          (case winner g of
             Absent \<Rightarrow> (Giveaway_or_winner_not_found, w)
           | Null \<Rightarrow> (Giveaway_or_winner_not_found, w)
           | Set_to wn \<Rightarrow>
               if user \<noteq> wid then (Only_the_winner, w)
               else
                 (case doubleDown g of
                    None \<Rightarrow> (No_longer_available, w)
                  | Some d \<Rightarrow>
                      if state d \<noteq> Pending then (No_longer_available, w)
                      else
                        (case act of
                           Dd_no \<Rightarrow>
                             (Declined,
                              w\<lparr>giveaways :=
                                  save_giveaway gid (g\<lparr>doubleDown := Some (d\<lparr>state := No\<rparr>)\<rparr>)
                                    (giveaways w)\<rparr>)
                         | Dd_yes \<Rightarrow>
                             (case randomOrgInteger 0 100 (rnd w) of
                                (Inl msg, r1) \<Rightarrow> (Random_failed, w\<lparr>rnd := r1\<rparr>)
                              | (Inr r, r1) \<Rightarrow>
                                  if r \<ge> 50 then
                                    (let add = pot g in
                                     (Double_down_win add,
                                      w\<lparr>giveaways :=
                                          save_giveaway gid
                                            (g\<lparr> winner := Set_to (wn\<lparr>payoutC := payoutC wn + add\<rparr>),
                                                pot := 0,
                                                doubleDown := Some (d\<lparr>state := Yes_win\<rparr>) \<rparr>)
                                            (giveaways w),
                                        rnd := r1\<rparr>))
                                  else
                                    (let ret = max 0 (real_of_int \<lfloor>baseWinC wn\<rfloor>) in
                                     (Double_down_lose ret,
                                      w\<lparr>giveaways :=
                                          save_giveaway gid
                                            (g\<lparr> pot := pot g + ret,
                                                winner := Set_to (wn\<lparr>payoutC := max 0 (payoutC wn - ret)\<rparr>),
                                                doubleDown := Some (d\<lparr>state := Yes_lose\<rparr>) \<rparr>)
                                            (giveaways w),
                                        rnd := r1\<rparr>)))))))"

text \<open>The callback armed by \<^verbatim>\<open>setTimeout\<close> in \<^verbatim>\<open>resolveGiveaway\<close>.\<close>

definition ddTimeout :: "string \<Rightarrow> world \<Rightarrow> world" where
  "ddTimeout gid w =
     (case find_giveaway gid (giveaways w) of
        None \<Rightarrow> w
      | Some gg \<Rightarrow>
          (case doubleDown gg of
             None \<Rightarrow> w
           | Some d \<Rightarrow>
               if state d = Pending then
                 w\<lparr>giveaways :=
                     save_giveaway gid (gg\<lparr>doubleDown := Some (d\<lparr>state := No\<rparr>)\<rparr>) (giveaways w)\<rparr>
               else w))"

text \<open>
  The three triggers of the sub-game, with what each reports to a user: a button answers
  through its interaction, the timer callback has no interaction and answers nothing.
\<close>

datatype trigger = Button dd_action string string | Timeout

definition fire :: "trigger \<Rightarrow> string \<Rightarrow> world \<Rightarrow> reply option \<times> world" where
  "fire t gid w =
     (case t of
        Button act wid user \<Rightarrow> (case ddButton act gid wid user w of (rp, w') \<Rightarrow> (Some rp, w'))
      | Timeout \<Rightarrow> (None, ddTimeout gid w))"

text \<open>A run of triggers on one giveaway, each on the world the one before left.\<close>

fun fireAll :: "trigger list \<Rightarrow> string \<Rightarrow> world \<Rightarrow> world" where
  "fireAll [] gid w = w"
| "fireAll (t # ts) gid w = fireAll ts gid (snd (fire t gid w))"

subsection \<open>Joining: the \<^verbatim>\<open>modal_join\<close> submission\<close>

text \<open>
  \<^verbatim>\<open>parseInt\<close> and \<^verbatim>\<open>parseFloat\<close> on byte strings: leading white space is skipped, the
  longest numeric prefix is read, and \<open>None\<close> (for \<^verbatim>\<open>parseInt\<close>) or \<open>NaN\<close> is the result
  when there is none. Values are exact: no rounding to a double.
\<close>

definition isWhiteSpace :: "char \<Rightarrow> bool" where
  "isWhiteSpace c = (c \<in> set [CHR 0x09, CHR 0x0A, CHR 0x0B, CHR 0x0C, CHR 0x0D, CHR '' ''])"

definition digitOf :: "char \<Rightarrow> nat option" where
  "digitOf c =
     (let n = (of_char c :: nat) in if 48 \<le> n \<and> n \<le> 57 then Some (n - 48) else None)"

definition hexDigitOf :: "char \<Rightarrow> nat option" where
  "hexDigitOf c =
     (let n = (of_char c :: nat) in
      if 48 \<le> n \<and> n \<le> 57 then Some (n - 48)
      else if 65 \<le> n \<and> n \<le> 70 then Some (n - 55)
      else if 97 \<le> n \<and> n \<le> 102 then Some (n - 87)
      else None)"

definition isDigit :: "char \<Rightarrow> bool" where
  "isDigit c = (digitOf c \<noteq> None)"

definition valueOf :: "nat \<Rightarrow> nat list \<Rightarrow> nat" where
  "valueOf radix ds = foldl (\<lambda>a d. a * radix + d) 0 ds"

definition decimalValue :: "string \<Rightarrow> nat" where
  "decimalValue ds = valueOf 10 (List.map_filter digitOf ds)"

definition parseInt :: "string \<Rightarrow> int option" where
  "parseInt str =
     (let s = dropWhile isWhiteSpace str;
          sign = (if take 1 s = ''-'' then - 1 else 1 :: int);
          s1 = (if take 1 s = ''+'' \<or> take 1 s = ''-'' then drop 1 s else s);
          hex = (take 2 s1 = ''0x'' \<or> take 2 s1 = ''0X'');
          s2 = (if hex then drop 2 s1 else s1);
          z = takeWhile (\<lambda>c. (if hex then hexDigitOf c else digitOf c) \<noteq> None) s2
      in if z = [] then None
         else Some (sign * int (if hex then valueOf 16 (List.map_filter hexDigitOf z)
                                else decimalValue z)))"

datatype number = NaN | Pos_infinity | Neg_infinity | Finite real

definition exponentPart :: "string \<Rightarrow> int" where
  "exponentPart s =
     (if take 1 s = ''e'' \<or> take 1 s = ''E'' then
        (let t = drop 1 s;
             t1 = (if take 1 t = ''+'' \<or> take 1 t = ''-'' then drop 1 t else t);
             ds = takeWhile isDigit t1
         in if take 1 t = ''-'' then - int (decimalValue ds) else int (decimalValue ds))
      else 0)"

definition pow10 :: "int \<Rightarrow> real" where
  "pow10 k = (if 0 \<le> k then 10 ^ nat k else 1 / 10 ^ nat (- k))"

definition parseFloat :: "string \<Rightarrow> number" where
  "parseFloat str =
     (let s = dropWhile isWhiteSpace str;
          neg = (take 1 s = ''-'');
          s1 = (if take 1 s = ''+'' \<or> take 1 s = ''-'' then drop 1 s else s)
      in if take 8 s1 = ''Infinity'' then (if neg then Neg_infinity else Pos_infinity)
         else
           (let ip = takeWhile isDigit s1;
                r1 = dropWhile isDigit s1;
                dot = (take 1 r1 = ''.'');
                fp = (if dot then takeWhile isDigit (drop 1 r1) else []);
                r2 = (if dot then dropWhile isDigit (drop 1 r1) else r1)
            in if ip = [] \<and> fp = [] then NaN
               else
                 (let m = real (decimalValue ip) + real (decimalValue fp) / 10 ^ length fp;
                      v = m * pow10 (exponentPart r2)
                  in Finite (if neg then - v else v))))"

text \<open>\<^verbatim>\<open>JSON.stringify\<close> writes \<^verbatim>\<open>NaN\<close> and the infinities as \<^verbatim>\<open>null\<close>.\<close>

definition toJSON :: "number \<Rightarrow> real option" where
  "toJSON x = (case x of Finite v \<Rightarrow> Some v | _ \<Rightarrow> None)"

text \<open>\<^verbatim>\<open>toLowerCase\<close>, on the ASCII letters.\<close>

definition lowerOf :: "char \<Rightarrow> char" where
  "lowerOf c =
     (case map_of (zip ''ABCDEFGHIJKLMNOPQRSTUVWXYZ'' ''abcdefghijklmnopqrstuvwxyz'') c of
        Some l \<Rightarrow> l
      | None \<Rightarrow> c)"

definition toLowerCase :: "string \<Rightarrow> string" where
  "toLowerCase s = map lowerOf s"

record modal_fields =
  f_main :: string
  f_tiebreak :: string
  f_stake :: string
  f_choice :: string
  f_risk :: string

record user =
  u_id :: string
  u_username :: string
  u_discriminator :: string

text \<open>
  \<open>t\<close> is \<^verbatim>\<open>Date.now()\<close>, read for the entry id and for \<^verbatim>\<open>joinedAt\<close>; the two reads are taken
  to give the same instant.
\<close>

definition newEntry :: "user \<Rightarrow> int \<Rightarrow> int \<Rightarrow> number \<Rightarrow> string \<Rightarrow> string \<Rightarrow> int \<Rightarrow> entry" where
  "newEntry u m tb st ch risk t =
     \<lparr> entryId = (u_id u, t), userId = u_id u,
       username = u_username u @ ''#'' @ u_discriminator u,
       main = m, tiebreak = tb, stakeC = toJSON st, choice = ch, riskProfile = risk,
       joinedAt = t, doubleDownDeadline = None \<rparr>"

definition modalJoin :: "string \<Rightarrow> user \<Rightarrow> modal_fields \<Rightarrow> int \<Rightarrow> world \<Rightarrow> reply \<times> world" where
  "modalJoin gid u f t w =
     (let mainv = parseInt (f_main f);
          tiebreakv = parseInt (f_tiebreak f);
          stakev = parseFloat (if f_stake f = [] then ''1'' else f_stake f);
          choicev = toLowerCase (f_choice f);
          risk = toLowerCase (f_risk f)
      in case mainv of
           None \<Rightarrow> (Invalid_main, w)
         | Some m \<Rightarrow>
             if m < 0 \<or> m > 100 then (Invalid_main, w)
             else
               (case tiebreakv of
                  None \<Rightarrow> (Invalid_tiebreak, w)
                | Some tb \<Rightarrow>
                    if tb < 0 \<or> tb > 100 then (Invalid_tiebreak, w)
                    else if choicev \<notin> set [''under'', ''over''] then (Invalid_choice, w)
                    else if risk \<notin> set [''low'', ''high''] then (Invalid_risk, w)
                    else
                      (case find_giveaway gid (giveaways w) of
                         None \<Rightarrow> (Giveaway_not_found, w)
                       | Some g \<Rightarrow>
                           if ended g then (Giveaway_already_ended, w)
                           else
                             (Joined,
                              w\<lparr>giveaways :=
                                  save_giveaway gid
                                    (g\<lparr>entries := entries g @ [newEntry u m tb stakev choicev risk t]\<rparr>)
                                    (giveaways w)\<rparr>))))"

subsection \<open>Example states\<close>

text \<open>
  A scripted Random.org, the default configuration of the source (house edge 0.02, pot
  shares 30 and 70) and a fresh giveaway \<^verbatim>\<open>G-1\<close> with a pot of 1000.
\<close>

definition scripted :: "(string + int) list \<Rightarrow> rand" where
  "scripted xs = \<lparr> answers = (\<lambda>n. if n < length xs then xs ! n else Inl ''no answer''), calls = [] \<rparr>"

definition objectPrototypeKeys :: "string list" where
  "objectPrototypeKeys =
     [''constructor'', ''__defineGetter__'', ''__defineSetter__'', ''hasOwnProperty'',
      ''__lookupGetter__'', ''__lookupSetter__'', ''isPrototypeOf'', ''propertyIsEnumerable'',
      ''toString'', ''valueOf'', ''__proto__'', ''toLocaleString'']"

definition defaultConfig :: config where
  "defaultConfig =
     \<lparr> houseEdge = Some (2 / 100),
       riskProfiles =
         (\<lambda>k. if k \<in> set objectPrototypeKeys then Some None else None)
           (''low'' \<mapsto> Some 30, ''high'' \<mapsto> Some 70) \<rparr>"

definition ex_entry :: "string \<Rightarrow> int \<Rightarrow> int \<Rightarrow> string \<Rightarrow> string \<Rightarrow> entry" where
  "ex_entry u m tb ch risk =
     \<lparr> entryId = (u, 0), userId = u, username = u @ ''#0'', main = m, tiebreak = tb,
       stakeC = Some 1, choice = ch, riskProfile = risk, joinedAt = 0,
       doubleDownDeadline = None \<rparr>"

definition ex_giveaway :: "entry list \<Rightarrow> giveaway" where
  "ex_giveaway es =
     \<lparr> g_id = ''G-1'', entries = es, pot = 1000, ended = False, roll = None,
       winner = Absent, result = None, doubleDown = None \<rparr>"

definition ex_world :: "entry list \<Rightarrow> (string + int) list \<Rightarrow> world" where
  "ex_world es xs = \<lparr> giveaways = [ex_giveaway es], cfg = defaultConfig, rnd = scripted xs, timers = [] \<rparr>"

definition ex_user :: user where
  "ex_user = \<lparr> u_id = ''ann'', u_username = ''ann'', u_discriminator = ''0'' \<rparr>"

text \<open>A submission with main number 50, tiebreak 7, \<^verbatim>\<open>under\<close>, low risk and the given stake text.\<close>

definition ex_fields :: "string \<Rightarrow> modal_fields" where
  "ex_fields st =
     \<lparr> f_main = ''50'', f_tiebreak = ''7'', f_stake = st, f_choice = ''under'', f_risk = ''low'' \<rparr>"

section \<open>Properties\<close>

subsection \<open>Loading and saving\<close>

lemma find_giveaway_id: "find_giveaway gid gs = Some g \<Longrightarrow> g_id g = gid"
  by (induction gs) (auto simp: find_giveaway_def split: if_splits)

lemma find_giveaway_mem: "find_giveaway gid gs = Some g \<Longrightarrow> g \<in> set gs"
  by (induction gs) (auto simp: find_giveaway_def split: if_splits)

lemma find_save_same:
  "find_giveaway gid gs = Some g \<Longrightarrow> g_id g' = gid \<Longrightarrow>
   find_giveaway gid (save_giveaway gid g' gs) = Some g'"
  by (induction gs) (auto simp: find_giveaway_def split: if_splits)

lemma find_save_other:
  "g_id g' = gid' \<Longrightarrow> gid \<noteq> gid' \<Longrightarrow>
   find_giveaway gid (save_giveaway gid' g' gs) = find_giveaway gid gs"
  by (induction gs) (auto simp: find_giveaway_def split: if_splits)

lemma save_unchanged: "find_giveaway gid gs = Some g \<Longrightarrow> save_giveaway gid g gs = gs"
  by (induction gs) (auto simp: find_giveaway_def split: if_splits)

lemma save_absent: "find_giveaway gid gs = None \<Longrightarrow> save_giveaway gid g' gs = gs"
  by (induction gs) (auto simp: find_giveaway_def split: if_splits)

subsection \<open>The candidate filter and the round without a winner\<close>

lemma candidate_iff:
  "(i, e) \<in> set (winnersCandidates r es) \<longleftrightarrow>
     i < length es \<and> es ! i = e \<and>
     (choice e = ''under'' \<and> r \<le> main e \<or> choice e = ''over'' \<and> r \<ge> main e)"
  by (auto simp: winnersCandidates_def isCandidate_def in_set_enumerate_eq)

lemma no_candidates:
  assumes "\<forall>e \<in> set es. \<not> (choice e = ''under'' \<and> r \<le> main e \<or> choice e = ''over'' \<and> r \<ge> main e)"
  shows "winnersCandidates r es = []"
proof -
  have "\<And>c. c \<in> set (enumerate 0 es) \<Longrightarrow> \<not> isCandidate r (snd c)"
    using assms by (auto simp: isCandidate_def in_set_enumerate_eq split: if_splits)
  then show ?thesis
    unfolding winnersCandidates_def by (simp add: filter_empty_conv)
qed

lemma resolve_no_winner:
  assumes "find_giveaway gid (giveaways w) = Some g" and "\<not> ended g"
    and "answers (rnd w) (length (calls (rnd w))) = Inr r"
    and "winnersCandidates r (entries g) = []"
  shows "resolveGiveaway gid ev w =
           (Returns,
            w\<lparr> giveaways :=
                 save_giveaway gid
                   (g\<lparr>ended := True, roll := Some r, winner := Null, result := Some (No_winners r)\<rparr>)
                   (giveaways w),
               rnd := (rnd w)\<lparr>calls := calls (rnd w) @ [(0, 100)]\<rparr> \<rparr>)"
  using assms by (simp add: resolveGiveaway_def randomOrgInteger_def Let_def)

text \<open>
  Claim C1. For every roll and every list of entries, the entry at a position is a
  candidate of the resolution exactly when its choice is \<^verbatim>\<open>under\<close> and the roll is at most
  its main number, or its choice is \<^verbatim>\<open>over\<close> and the roll is at least its main number.
  When no entry of a running giveaway is a candidate for the roll drawn, the resolution
  returns and the saved giveaway has the note "No winners" with the roll, the winner
  \<^verbatim>\<open>null\<close>, the ended flag set and the pot it had.
\<close>

theorem C1_candidates_and_no_winner:
  "((i, e) \<in> set (winnersCandidates r es) \<longleftrightarrow>
      i < length es \<and> es ! i = e \<and>
      (choice e = ''under'' \<and> r \<le> main e \<or> choice e = ''over'' \<and> r \<ge> main e))
   \<and>
   (find_giveaway gid (giveaways w) = Some g \<and> \<not> ended g \<and>
    answers (rnd w) (length (calls (rnd w))) = Inr r \<and>
    (\<forall>e \<in> set (entries g).
        \<not> (choice e = ''under'' \<and> r \<le> main e \<or> choice e = ''over'' \<and> r \<ge> main e))
    \<longrightarrow>
    fst (resolveGiveaway gid ev w) = Returns \<and>
    (\<exists>g'. find_giveaway gid (giveaways (snd (resolveGiveaway gid ev w))) = Some g' \<and>
          result g' = Some (No_winners r) \<and> winner g' = Null \<and> ended g' \<and>
          pot g' = pot g \<and> entries g' = entries g \<and> doubleDown g' = doubleDown g))"
proof (intro conjI impI)
  show "(i, e) \<in> set (winnersCandidates r es) \<longleftrightarrow>
      i < length es \<and> es ! i = e \<and>
      (choice e = ''under'' \<and> r \<le> main e \<or> choice e = ''over'' \<and> r \<ge> main e)"
    by (rule candidate_iff)
next
  assume h: "find_giveaway gid (giveaways w) = Some g \<and> \<not> ended g \<and>
    answers (rnd w) (length (calls (rnd w))) = Inr r \<and>
    (\<forall>e \<in> set (entries g).
        \<not> (choice e = ''under'' \<and> r \<le> main e \<or> choice e = ''over'' \<and> r \<ge> main e))"
  then have nc: "winnersCandidates r (entries g) = []" by (intro no_candidates) blast
  note eq = resolve_no_winner[of gid w g r ev, OF _ _ _ nc]
  have gid: "g_id g = gid" using h by (auto dest: find_giveaway_id)
  show "fst (resolveGiveaway gid ev w) = Returns" using h eq by simp
  show "\<exists>g'. find_giveaway gid (giveaways (snd (resolveGiveaway gid ev w))) = Some g' \<and>
          result g' = Some (No_winners r) \<and> winner g' = Null \<and> ended g' \<and>
          pot g' = pot g \<and> entries g' = entries g \<and> doubleDown g' = doubleDown g"
    using h eq gid by (simp add: find_save_same)
qed

theorem C1_witness:
  "find_giveaway ''G-1'' (giveaways (ex_world [ex_entry ''ann'' 30 10 ''under'' ''low''] [Inr 50])) =
     Some (ex_giveaway [ex_entry ''ann'' 30 10 ''under'' ''low''])
   \<and> \<not> ended (ex_giveaway [ex_entry ''ann'' 30 10 ''under'' ''low''])
   \<and> answers (rnd (ex_world [ex_entry ''ann'' 30 10 ''under'' ''low''] [Inr 50])) 0 = Inr 50
   \<and> \<not> (choice (ex_entry ''ann'' 30 10 ''under'' ''low'') = ''under'' \<and>
         50 \<le> main (ex_entry ''ann'' 30 10 ''under'' ''low''))
   \<and> choice (ex_entry ''ann'' 30 10 ''under'' ''low'') \<noteq> ''over''
   \<and> (0, ex_entry ''ann'' 30 10 ''under'' ''low'')
        \<notin> set (winnersCandidates 50 [ex_entry ''ann'' 30 10 ''under'' ''low''])
   \<and> fst (resolveGiveaway ''G-1'' \<lparr>edit_ok = True, now = 0\<rparr>
            (ex_world [ex_entry ''ann'' 30 10 ''under'' ''low''] [Inr 50])) = Returns
   \<and> (\<exists>g'. find_giveaway ''G-1'' (giveaways (snd (resolveGiveaway ''G-1'' \<lparr>edit_ok = True, now = 0\<rparr>
            (ex_world [ex_entry ''ann'' 30 10 ''under'' ''low''] [Inr 50])))) = Some g'
          \<and> result g' = Some (No_winners 50) \<and> winner g' = Null \<and> ended g' \<and> pot g' = 1000)"
proof -
  let ?e = "ex_entry ''ann'' 30 10 ''under'' ''low''"
  let ?g = "ex_giveaway [?e]"
  let ?w = "ex_world [?e] [Inr 50]"
  have h1: "find_giveaway ''G-1'' (giveaways ?w) = Some ?g"
    by (simp add: ex_world_def ex_giveaway_def find_giveaway_def)
  have h2: "\<not> ended ?g" by (simp add: ex_giveaway_def)
  have h3: "answers (rnd ?w) (length (calls (rnd ?w))) = Inr 50"
    by (simp add: ex_world_def scripted_def)
  have h4: "\<not> (choice ?e = ''under'' \<and> 50 \<le> main ?e)" and h5: "choice ?e \<noteq> ''over''"
    by (simp_all add: ex_entry_def)
  have h6: "\<forall>e \<in> set (entries ?g).
        \<not> (choice e = ''under'' \<and> 50 \<le> main e \<or> choice e = ''over'' \<and> 50 \<ge> main e)"
    using h4 h5 by (simp add: ex_giveaway_def)
  have p: "pot ?g = 1000" and l: "length (calls (rnd ?w)) = 0"
    by (simp_all add: ex_giveaway_def ex_world_def scripted_def)
  note t = C1_candidates_and_no_winner[of 0 ?e 50 "[?e]" "''G-1''" ?w ?g "\<lparr>edit_ok = True, now = 0\<rparr>"]
  have c1: "(0, ?e) \<notin> set (winnersCandidates 50 [?e])"
    using t h4 h5 by simp
  have c2: "fst (resolveGiveaway ''G-1'' \<lparr>edit_ok = True, now = 0\<rparr> ?w) = Returns \<and>
    (\<exists>g'. find_giveaway ''G-1'' (giveaways (snd (resolveGiveaway ''G-1'' \<lparr>edit_ok = True, now = 0\<rparr> ?w)))
             = Some g' \<and>
          result g' = Some (No_winners 50) \<and> winner g' = Null \<and> ended g' \<and> pot g' = pot ?g \<and>
          entries g' = entries ?g \<and> doubleDown g' = doubleDown ?g)"
    using t h1 h2 h3 h6 by blast
  show ?thesis
    using h1 h2 h3 h4 h5 c1 c2 p l by auto
qed


subsection \<open>Resolving twice\<close>

lemma resolve_ended:
  "find_giveaway gid (giveaways w) = Some g \<Longrightarrow> ended g \<Longrightarrow> resolveGiveaway gid ev w = (Returns, w)"
  by (simp add: resolveGiveaway_def)

lemma resolve_missing:
  "find_giveaway gid (giveaways w) = None \<Longrightarrow> resolveGiveaway gid ev w = (Returns, w)"
  by (simp add: resolveGiveaway_def)

lemma announce_find:
  "find_giveaway gid (giveaways w) = Some g0 \<Longrightarrow> g_id g = gid \<Longrightarrow> ended g \<Longrightarrow>
   \<exists>g'. find_giveaway gid (giveaways (announce ev w g rl n fw r)) = Some g' \<and> ended g'"
  by (auto simp: announce_def Let_def find_save_same)

lemma resolve_returns_ended:
  assumes "find_giveaway gid (giveaways w) = Some g"
    and "resolveGiveaway gid ev w = (Returns, w')"
  shows "\<exists>g'. find_giveaway gid (giveaways w') = Some g' \<and> ended g'"
proof (cases "ended g")
  case True
  with assms show ?thesis by (simp add: resolve_ended)
next
  case False
  have gid: "g_id g = gid" using assms(1) by (rule find_giveaway_id)
  show ?thesis
    using assms False gid announce_find[OF assms(1), of "g\<lparr>ended := True, roll := Some rl\<rparr>" for rl]
    by (auto simp: resolveGiveaway_def Let_def find_save_same
             split: prod.splits sum.splits option.splits if_splits)
qed

text \<open>
  Claim C5. A resolution that finds the ended flag of the giveaway set returns without
  changing anything: not the saved giveaways, not the Random.org log, not the timers.
  Hence, after a resolution that returned, a second resolution of the same giveaway leaves
  the world exactly as the first one left it.
\<close>

theorem C5_second_resolution_changes_nothing:
  "(find_giveaway gid (giveaways w) = Some g \<and> ended g \<longrightarrow>
      resolveGiveaway gid ev w = (Returns, w))
   \<and>
   (fst (resolveGiveaway gid ev w) = Returns \<longrightarrow>
      resolveGiveaway gid ev' (snd (resolveGiveaway gid ev w)) =
        (Returns, snd (resolveGiveaway gid ev w)))"
proof (intro conjI impI)
  assume "find_giveaway gid (giveaways w) = Some g \<and> ended g"
  then show "resolveGiveaway gid ev w = (Returns, w)" by (simp add: resolve_ended)
next
  assume r: "fst (resolveGiveaway gid ev w) = Returns"
  obtain w' where w': "resolveGiveaway gid ev w = (Returns, w')"
    using r by (cases "resolveGiveaway gid ev w") simp
  show "resolveGiveaway gid ev' (snd (resolveGiveaway gid ev w)) =
        (Returns, snd (resolveGiveaway gid ev w))"
  proof (cases "find_giveaway gid (giveaways w)")
    case None
    then show ?thesis by (simp add: resolve_missing)
  next
    case (Some g)
    from resolve_returns_ended[OF Some w'] obtain g'
      where "find_giveaway gid (giveaways w') = Some g'" "ended g'" by blast
    then show ?thesis using w' by (simp add: resolve_ended)
  qed
qed

lemma ex_resolved:
  "resolveGiveaway ''G-1'' \<lparr>edit_ok = True, now = 0\<rparr>
     (ex_world [ex_entry ''ann'' 30 10 ''under'' ''high''] (Inr 20 # xs)) =
   (Returns,
    \<lparr> giveaways =
        [\<lparr> g_id = ''G-1'',
           entries = [(ex_entry ''ann'' 30 10 ''under'' ''high'')\<lparr>doubleDownDeadline := Some 21600000\<rparr>],
           pot = 300, ended = True, roll = Some 20,
           winner = Set_to \<lparr> w_userId = ''ann'', w_username = ''ann#0'', w_main = 30,
                      w_tiebreak = 10, w_choice = ''under'', stake = 1,
                      payoutC = 70319 / 100, baseWinC = 319 / 100, potShareC = 700 \<rparr>,
           result = Some (Resolved 20 1),
           doubleDown = Some \<lparr> state = Pending, deadline = 21600000, winnerId = ''ann'' \<rparr> \<rparr>],
       cfg = defaultConfig,
       rnd = (scripted (Inr 20 # xs))\<lparr>calls := [(0, 100)]\<rparr>,
       timers = [''G-1''] \<rparr>)"
  by (simp add: resolveGiveaway_def ex_world_def ex_giveaway_def ex_entry_def scripted_def
        find_giveaway_def randomOrgInteger_def winnersCandidates_def isCandidate_def
        pickWinner_def objectKeys_def isArrayIndex_def grouped_def resolveGroup_def
        at_index_def finalWinner_def announce_def winnerRecord_def baseWin_def stakeOf_def
        multiplier_def prob_def potShareAmount_def potSharePercent_def defaultConfig_def
        Let_def enumerate_eq_zip)

theorem C5_witness:
  "fst (resolveGiveaway ''G-1'' \<lparr>edit_ok = True, now = 0\<rparr>
          (ex_world [ex_entry ''ann'' 30 10 ''under'' ''high''] [Inr 20])) = Returns \<and>
   (\<exists>g'. find_giveaway ''G-1''
            (giveaways (snd (resolveGiveaway ''G-1'' \<lparr>edit_ok = True, now = 0\<rparr>
                               (ex_world [ex_entry ''ann'' 30 10 ''under'' ''high''] [Inr 20]))))
          = Some g' \<and> ended g') \<and>
   resolveGiveaway ''G-1'' \<lparr>edit_ok = True, now = 7\<rparr>
     (snd (resolveGiveaway ''G-1'' \<lparr>edit_ok = True, now = 0\<rparr>
             (ex_world [ex_entry ''ann'' 30 10 ''under'' ''high''] [Inr 20]))) =
   (Returns,
    snd (resolveGiveaway ''G-1'' \<lparr>edit_ok = True, now = 0\<rparr>
           (ex_world [ex_entry ''ann'' 30 10 ''under'' ''high''] [Inr 20])))"
proof -
  let ?w = "ex_world [ex_entry ''ann'' 30 10 ''under'' ''high''] [Inr 20]"
  let ?ev = "\<lparr>edit_ok = True, now = 0\<rparr>"
  have h: "fst (resolveGiveaway ''G-1'' ?ev ?w) = Returns"
    by (simp add: ex_resolved)
  have e: "\<exists>g'. find_giveaway ''G-1'' (giveaways (snd (resolveGiveaway ''G-1'' ?ev ?w))) = Some g'
             \<and> ended g'"
    by (simp add: ex_resolved find_giveaway_def)
  then obtain g' where g': "find_giveaway ''G-1'' (giveaways (snd (resolveGiveaway ''G-1'' ?ev ?w))) = Some g'"
    "ended g'" by blast
  have "resolveGiveaway ''G-1'' \<lparr>edit_ok = True, now = 7\<rparr> (snd (resolveGiveaway ''G-1'' ?ev ?w)) =
          (Returns, snd (resolveGiveaway ''G-1'' ?ev ?w))"
    using C5_second_resolution_changes_nothing
            [where gid = "''G-1''" and w = "snd (resolveGiveaway ''G-1'' ?ev ?w)" and g = g'
               and ev = "\<lparr>edit_ok = True, now = 7\<rparr>"]
          C5_second_resolution_changes_nothing
            [where gid = "''G-1''" and ev = ?ev and w = ?w and ev' = "\<lparr>edit_ok = True, now = 7\<rparr>"]
          g' h
    by blast
  then show ?thesis using h e by blast
qed

subsection \<open>A failed roll\<close>

lemma resolve_roll_failed:
  assumes "find_giveaway gid (giveaways w) = Some g" and "\<not> ended g"
    and "answers (rnd w) (length (calls (rnd w))) = Inl msg"
  shows "resolveGiveaway gid ev w =
           (Returns,
            w\<lparr> giveaways :=
                 save_giveaway gid
                   (g\<lparr>ended := True, result := Some (Error_note ''random.org failed'' msg)\<rparr>)
                   (giveaways w),
               rnd := (rnd w)\<lparr>calls := calls (rnd w) @ [(0, 100)]\<rparr> \<rparr>)"
  using assms by (simp add: resolveGiveaway_def randomOrgInteger_def Let_def)

text \<open>
  Claim C6, as the code has it. The ended flag is set before the roll is requested. When
  the request for the primary roll fails, the resolution saves the giveaway with the
  ended flag set and the error note \<^verbatim>\<open>random.org failed\<close> (roll, winner, pot and entries as
  they were), arms no timer and returns; a later resolution of that giveaway changes
  nothing, so the drawing is not resolvable again.
\<close>

theorem C6_failed_roll_ends_the_drawing:
  "find_giveaway gid (giveaways w) = Some g \<and> \<not> ended g \<and>
   answers (rnd w) (length (calls (rnd w))) = Inl msg
   \<longrightarrow>
   fst (resolveGiveaway gid ev w) = Returns \<and>
   find_giveaway gid (giveaways (snd (resolveGiveaway gid ev w))) =
     Some (g\<lparr>ended := True, result := Some (Error_note ''random.org failed'' msg)\<rparr>) \<and>
   calls (rnd (snd (resolveGiveaway gid ev w))) = calls (rnd w) @ [(0, 100)] \<and>
   timers (snd (resolveGiveaway gid ev w)) = timers w \<and>
   resolveGiveaway gid ev' (snd (resolveGiveaway gid ev w)) =
     (Returns, snd (resolveGiveaway gid ev w))"
proof
  assume h: "find_giveaway gid (giveaways w) = Some g \<and> \<not> ended g \<and>
   answers (rnd w) (length (calls (rnd w))) = Inl msg"
  let ?g' = "g\<lparr>ended := True, result := Some (Error_note ''random.org failed'' msg)\<rparr>"
  have gid: "g_id g = gid" using h by (auto dest: find_giveaway_id)
  have eq: "resolveGiveaway gid ev w =
           (Returns, w\<lparr> giveaways := save_giveaway gid ?g' (giveaways w),
               rnd := (rnd w)\<lparr>calls := calls (rnd w) @ [(0, 100)]\<rparr> \<rparr>)"
    using h by (intro resolve_roll_failed) auto
  have f: "find_giveaway gid (giveaways (snd (resolveGiveaway gid ev w))) = Some ?g'"
    using h gid by (simp add: eq find_save_same)
  have again: "resolveGiveaway gid ev' (snd (resolveGiveaway gid ev w)) =
     (Returns, snd (resolveGiveaway gid ev w))"
    using f by (intro resolve_ended[where g = ?g']) auto
  show "fst (resolveGiveaway gid ev w) = Returns \<and>
   find_giveaway gid (giveaways (snd (resolveGiveaway gid ev w))) = Some ?g' \<and>
   calls (rnd (snd (resolveGiveaway gid ev w))) = calls (rnd w) @ [(0, 100)] \<and>
   timers (snd (resolveGiveaway gid ev w)) = timers w \<and>
   resolveGiveaway gid ev' (snd (resolveGiveaway gid ev w)) =
     (Returns, snd (resolveGiveaway gid ev w))"
    using f again by (simp add: eq)
qed

lemma ex_resolve_roll_failed:
  "resolveGiveaway ''G-1'' \<lparr>edit_ok = True, now = 0\<rparr>
     (ex_world [ex_entry ''ann'' 30 10 ''under'' ''high''] [Inl ''down'', Inr 20]) =
   (Returns,
    \<lparr> giveaways =
        [(ex_giveaway [ex_entry ''ann'' 30 10 ''under'' ''high''])
           \<lparr>ended := True, result := Some (Error_note ''random.org failed'' ''down'')\<rparr>],
       cfg = defaultConfig,
       rnd = (scripted [Inl ''down'', Inr 20])\<lparr>calls := [(0, 100)]\<rparr>,
       timers = [] \<rparr>)"
  by (simp add: resolveGiveaway_def ex_world_def ex_giveaway_def scripted_def
        find_giveaway_def randomOrgInteger_def Let_def)

text \<open>
  The claim as stated fails: Random.org is down for the first request and would answer 20
  to a second one. After the resolution the giveaway is saved as ended, with the error
  note and no roll; the retry returns at once and the drawing stays without outcome.
\<close>

theorem C6_counterexample:
  "\<not> ended (ex_giveaway [ex_entry ''ann'' 30 10 ''under'' ''high'']) \<and>
   answers (rnd (ex_world [ex_entry ''ann'' 30 10 ''under'' ''high''] [Inl ''down'', Inr 20])) 0
     = Inl ''down'' \<and>
   (\<exists>w' g'. resolveGiveaway ''G-1'' \<lparr>edit_ok = True, now = 0\<rparr>
              (ex_world [ex_entry ''ann'' 30 10 ''under'' ''high''] [Inl ''down'', Inr 20])
            = (Returns, w') \<and>
          find_giveaway ''G-1'' (giveaways w') = Some g' \<and>
          ended g' \<and> result g' = Some (Error_note ''random.org failed'' ''down'') \<and>
          roll g' = None \<and> winner g' = Absent \<and>
          answers (rnd w') (length (calls (rnd w'))) = Inr 20 \<and>
          resolveGiveaway ''G-1'' \<lparr>edit_ok = True, now = 0\<rparr> w' = (Returns, w'))"
  unfolding ex_resolve_roll_failed
  by (simp add: ex_giveaway_def ex_world_def scripted_def find_giveaway_def resolveGiveaway_def)


theorem C6_witness:
  "find_giveaway ''G-1'' (giveaways (ex_world [ex_entry ''ann'' 30 10 ''under'' ''high''] [Inl ''down'', Inr 20]))
     = Some (ex_giveaway [ex_entry ''ann'' 30 10 ''under'' ''high'']) \<and>
   \<not> ended (ex_giveaway [ex_entry ''ann'' 30 10 ''under'' ''high'']) \<and>
   answers (rnd (ex_world [ex_entry ''ann'' 30 10 ''under'' ''high''] [Inl ''down'', Inr 20])) 0
     = Inl ''down'' \<and>
   find_giveaway ''G-1''
     (giveaways (snd (resolveGiveaway ''G-1'' \<lparr>edit_ok = True, now = 0\<rparr>
                        (ex_world [ex_entry ''ann'' 30 10 ''under'' ''high''] [Inl ''down'', Inr 20]))))
     = Some ((ex_giveaway [ex_entry ''ann'' 30 10 ''under'' ''high''])
               \<lparr>ended := True, result := Some (Error_note ''random.org failed'' ''down'')\<rparr>)"
proof -
  let ?w = "ex_world [ex_entry ''ann'' 30 10 ''under'' ''high''] [Inl ''down'', Inr 20]"
  let ?g = "ex_giveaway [ex_entry ''ann'' 30 10 ''under'' ''high'']"
  have h1: "find_giveaway ''G-1'' (giveaways ?w) = Some ?g"
    by (simp add: ex_world_def ex_giveaway_def find_giveaway_def)
  have h2: "\<not> ended ?g" by (simp add: ex_giveaway_def)
  have h3: "answers (rnd ?w) (length (calls (rnd ?w))) = Inl ''down''"
    by (simp add: ex_world_def scripted_def)
  have l: "length (calls (rnd ?w)) = 0" by (simp add: ex_world_def scripted_def)
  show ?thesis
    using C6_failed_roll_ends_the_drawing
            [where gid = "''G-1''" and w = ?w and g = ?g and msg = "''down''"
               and ev = "\<lparr>edit_ok = True, now = 0\<rparr>"] h1 h2 h3 l
    by simp
qed

subsection \<open>A round with a winner: payout and double-down offer\<close>

lemma resolve_winner:
  assumes "find_giveaway gid (giveaways w) = Some g" and "\<not> ended g"
    and "answers (rnd w) (length (calls (rnd w))) = Inr rl"
    and "winnersCandidates rl (entries g) \<noteq> []"
    and "pickWinner (winnersCandidates rl (entries g))
           ((rnd w)\<lparr>calls := calls (rnd w) @ [(0, 100)]\<rparr>) = ((Some fw, n), r2)"
  shows "resolveGiveaway gid ev w =
           (Returns, announce ev w (g\<lparr>ended := True, roll := Some rl\<rparr>) rl n fw r2)"
  using assms by (simp add: resolveGiveaway_def randomOrgInteger_def Let_def)



lemma ex_candidates:
  "winnersCandidates 20 [ex_entry ''ann'' 30 10 ''under'' ''high''] =
     [(0, ex_entry ''ann'' 30 10 ''under'' ''high'')]"
  by (simp add: winnersCandidates_def isCandidate_def ex_entry_def enumerate_eq_zip)

lemma ex_pick:
  "pickWinner [(0, ex_entry ''ann'' 30 10 ''under'' ''high'')] r =
     ((Some (0, ex_entry ''ann'' 30 10 ''under'' ''high''), 1), r)"
  by (simp add: pickWinner_def objectKeys_def isArrayIndex_def grouped_def resolveGroup_def
        at_index_def finalWinner_def ex_entry_def)

text \<open>The final winner is one of the candidates of the roll.\<close>

lemma at_index_mem: "at_index xs i = Some x \<Longrightarrow> x \<in> set xs"
  by (auto simp: at_index_def split: if_splits)

lemma set_sortByTiebreak: "set (sortByTiebreak arr) = set arr"
  by (simp add: sortByTiebreak_def)

lemma set_tiedTop: "set (tiedTop arr) \<subseteq> set arr"
proof (cases "sortByTiebreak arr")
  case Nil
  then show ?thesis by (simp add: tiedTop_def)
next
  case (Cons t rest)
  then have "set (tiedTop arr) \<subseteq> set (sortByTiebreak arr)"
    by (auto simp: tiedTop_def)
  then show ?thesis by (simp add: set_sortByTiebreak)
qed

lemma resolveGroup_mem:
  assumes "resolveGroup arr r = (Some c, r')"
  shows "c \<in> set arr"
proof -
  have "c \<in> set arr \<union> set (sortByTiebreak arr) \<union> set (tiedTop arr)"
    using assms
    by (auto simp: resolveGroup_def dest: at_index_mem split: if_splits prod.splits sum.splits)
  then show ?thesis using set_tiedTop[of arr] by (auto simp: set_sortByTiebreak)
qed

lemma resolveGroups_mem:
  "resolveGroups ks cs r = (reps, r') \<Longrightarrow> Some c \<in> set reps \<Longrightarrow> c \<in> set cs"
proof (induction ks arbitrary: r reps r')
  case Nil
  then show ?case by simp
next
  case (Cons k ks)
  obtain rep r1 where g: "resolveGroup (grouped cs k) r = (rep, r1)" by (metis prod.exhaust)
  obtain rest r2 where rs: "resolveGroups ks cs r1 = (rest, r2)" by (metis prod.exhaust)
  have reps: "reps = rep # rest" using Cons.prems(1) g rs by simp
  show ?case
  proof (cases "rep = Some c")
    case True
    then have "c \<in> set (grouped cs k)" using g by (auto dest: resolveGroup_mem)
    then show ?thesis by (simp add: grouped_def)
  next
    case False
    then have "Some c \<in> set rest" using Cons.prems(2) reps by auto
    then show ?thesis using Cons.IH[OF rs] by simp
  qed
qed

lemma finalWinner_mem:
  assumes "finalWinner resolved r = (Some c, r')"
  shows "Some c \<in> set resolved"
proof -
  have "\<exists>i. at_index resolved i = Some (Some c)"
    using assms
    by (auto simp: finalWinner_def Option.bind_eq_Some_conv split: if_splits prod.splits sum.splits)
  then show ?thesis by (auto dest: at_index_mem)
qed

lemma pickWinner_mem:
  assumes "pickWinner cs r = ((Some c, n), r')"
  shows "c \<in> set cs"
proof -
  obtain resolved r1 where rs: "resolveGroups (objectKeys (map (\<lambda>c. main (snd c)) cs)) cs r = (resolved, r1)"
    by (metis prod.exhaust)
  then have "finalWinner resolved r1 = (Some c, r')"
    using assms by (auto simp: pickWinner_def split: prod.splits)
  then have "Some c \<in> set resolved" by (rule finalWinner_mem)
  then show ?thesis using rs by (rule resolveGroups_mem[rotated])
qed

lemma winner_is_candidate:
  assumes "pickWinner (winnersCandidates rl es) r = ((Some (i, e), n), r')"
  shows "i < length es \<and> es ! i = e \<and>
         (choice e = ''under'' \<and> rl \<le> main e \<or> choice e = ''over'' \<and> rl \<ge> main e)"
  using pickWinner_mem[OF assms] by (simp add: candidate_iff)











subsection \<open>The representative of a group\<close>

text \<open>
  The sort is stable and descending in the tiebreak, so the entries that \<^verbatim>\<open>tiedTop\<close> keeps
  are those with the greatest tiebreak of the group, in the order the group had.
\<close>

lemma at_index_0: "at_index (x # xs) 0 = Some x"
  by (simp add: at_index_def)

lemma sorted_head_max:
  assumes "sortByTiebreak arr = t # rest"
  shows "t \<in> set arr \<and> (\<forall>x \<in> set arr. tiebreak (snd x) \<le> tiebreak (snd t))"
proof -
  let ?f = "\<lambda>c :: cand. - tiebreak (snd c)"
  have s: "set (t # rest) = set arr"
    using assms by (metis set_sort sortByTiebreak_def)
  have "sorted (map ?f (sortByTiebreak arr))"
    unfolding sortByTiebreak_def by (rule sorted_sort_key)
  then have "sorted (map ?f (t # rest))" unfolding assms .
  then have "\<forall>y \<in> set rest. ?f t \<le> ?f y" by simp
  then have "\<forall>y \<in> set (t # rest). tiebreak (snd y) \<le> tiebreak (snd t)" by auto
  then show ?thesis using s by auto
qed

lemma tiedTop_filter:
  assumes "m \<in> (\<lambda>x. tiebreak (snd x)) ` set arr"
    and "\<forall>x \<in> set arr. tiebreak (snd x) \<le> m"
  shows "tiedTop arr = filter (\<lambda>x. tiebreak (snd x) = m) arr"
    and "\<exists>t rest. sortByTiebreak arr = t # rest \<and> tiebreak (snd t) = m"
proof -
  let ?f = "\<lambda>c :: cand. - tiebreak (snd c)"
  have "set (sortByTiebreak arr) = set arr" by (simp add: sortByTiebreak_def)
  then have ne: "sortByTiebreak arr \<noteq> []"
    using assms(1) by auto
  then obtain t rest where tr: "sortByTiebreak arr = t # rest"
    by (cases "sortByTiebreak arr") auto
  from sorted_head_max[OF tr] have t: "t \<in> set arr" "\<forall>x \<in> set arr. tiebreak (snd x) \<le> tiebreak (snd t)"
    by auto
  have tm: "tiebreak (snd t) = m"
    using assms t by (auto intro: antisym)
  have "tiedTop arr = filter (\<lambda>e. ?f e = - m) (sort_key ?f arr)"
    using tr tm by (simp add: tiedTop_def sortByTiebreak_def cong: filter_cong)
  also have "\<dots> = filter (\<lambda>e. ?f e = - m) arr" by (rule sort_key_stable)
  also have "\<dots> = filter (\<lambda>x. tiebreak (snd x) = m) arr" by simp
  finally show "tiedTop arr = filter (\<lambda>x. tiebreak (snd x) = m) arr" .
  show "\<exists>t rest. sortByTiebreak arr = t # rest \<and> tiebreak (snd t) = m"
    using tr tm by blast
qed

lemma unique_top:
  assumes "mset arr = add_mset c (mset others)"
    and "\<forall>x \<in> set others. tiebreak (snd x) < tiebreak (snd c)"
  shows "filter (\<lambda>x. tiebreak (snd x) = tiebreak (snd c)) arr = [c]"
proof -
  have "mset (filter (\<lambda>x. tiebreak (snd x) = tiebreak (snd c)) arr) =
        filter_mset (\<lambda>x. tiebreak (snd x) = tiebreak (snd c)) (add_mset c (mset others))"
    using assms(1) by (metis mset_filter)
  also have "\<dots> = add_mset c (mset (filter (\<lambda>x. tiebreak (snd x) = tiebreak (snd c)) others))"
    by simp
  also have "filter (\<lambda>x. tiebreak (snd x) = tiebreak (snd c)) others = []"
    using assms(2) by (auto simp: filter_empty_conv)
  also have "add_mset c (mset []) = {#c#}" by simp
  finally show ?thesis by (metis mset_single_iff_right)
qed

lemma resolveGroup_unique_top:
  assumes "mset arr = add_mset c (mset others)"
    and "\<forall>x \<in> set others. tiebreak (snd x) < tiebreak (snd c)"
  shows "resolveGroup arr r = (Some c, r)"
proof -
  have sa: "set arr = insert c (set others)"
    using assms(1) by (metis set_mset_add_mset_insert set_mset_mset)
  have m: "tiebreak (snd c) \<in> (\<lambda>x. tiebreak (snd x)) ` set arr" using sa by auto
  have le: "\<forall>x \<in> set arr. tiebreak (snd x) \<le> tiebreak (snd c)"
    using sa assms(2) by auto
  have tt: "tiedTop arr = [c]"
    using tiedTop_filter(1)[OF m le] unique_top[OF assms] by simp
  obtain t rest where tr: "sortByTiebreak arr = t # rest"
    using tiedTop_filter(2)[OF m le] by blast
  have "t \<in> set (tiedTop arr)" using tr by (simp add: tiedTop_def)
  then have tc: "t = c" using tt by simp
  show ?thesis
  proof (cases "length arr = 1")
    case True
    then obtain a where "arr = [a]" by (cases arr) auto
    with sa have "arr = [c]" by auto
    then show ?thesis by (simp add: resolveGroup_def at_index_0)
  next
    case False
    then show ?thesis using tt tr tc by (simp add: resolveGroup_def at_index_0)
  qed
qed

lemma resolveGroup_tied:
  assumes "m \<in> (\<lambda>x. tiebreak (snd x)) ` set arr"
    and "\<forall>x \<in> set arr. tiebreak (snd x) \<le> m"
    and "tied = filter (\<lambda>x. tiebreak (snd x) = m) arr"
    and "1 < length tied"
  shows "resolveGroup arr r =
           ((case answers r (length (calls r)) of
               Inr i \<Rightarrow> at_index tied i
             | Inl msg \<Rightarrow> Some (hd tied)),
            r\<lparr>calls := calls r @ [(0, int (length tied) - 1)]\<rparr>)"
proof -
  have tt: "tiedTop arr = tied" using tiedTop_filter(1)[OF assms(1,2)] assms(3) by simp
  have "length tied \<le> length arr" using assms(3) by simp
  then have l: "length arr \<noteq> 1" using assms(4) by simp
  obtain a rest where "tied = a # rest" using assms(4) by (cases tied) auto
  then have hd: "at_index tied 0 = Some (hd tied)" by (simp add: at_index_0)
  show ?thesis
    using l assms(4) hd
    by (simp add: resolveGroup_def tt randomOrgInteger_def split: sum.splits)
qed


text \<open>
  Claim C2. \<open>resolveGroup\<close> is run on each group of candidates with the same main number.
  If one entry \<open>c\<close> of the group has a tiebreak above all the others, then \<open>c\<close> represents the
  group, in whatever order the group lists its entries, and Random.org is not asked. If
  \<open>k > 1\<close> entries share the greatest tiebreak \<open>m\<close>, one request with the range \<open>[0, k - 1]\<close>
  is made: an answer \<open>i\<close> selects the tied entry at index \<open>i\<close> (every index of the range is
  an entry), and a failed request selects the first tied entry in the original order.
\<close>

theorem C2_group_representative:
  "(mset arr = add_mset c (mset others) \<and>
    (\<forall>x \<in> set others. tiebreak (snd x) < tiebreak (snd c))
    \<longrightarrow> resolveGroup arr r = (Some c, r))
   \<and>
   (m \<in> (\<lambda>x. tiebreak (snd x)) ` set arr \<and>
    (\<forall>x \<in> set arr. tiebreak (snd x) \<le> m) \<and>
    tied = filter (\<lambda>x. tiebreak (snd x) = m) arr \<and> 1 < length tied
    \<longrightarrow>
    resolveGroup arr r =
      ((case answers r (length (calls r)) of
          Inr i \<Rightarrow> at_index tied i
        | Inl msg \<Rightarrow> Some (hd tied)),
       r\<lparr>calls := calls r @ [(0, int (length tied) - 1)]\<rparr>) \<and>
    (\<forall>i. 0 \<le> i \<and> i \<le> int (length tied) - 1 \<longrightarrow> at_index tied i = Some (tied ! nat i)))"
proof (intro conjI impI allI)
  assume "mset arr = add_mset c (mset others) \<and>
    (\<forall>x \<in> set others. tiebreak (snd x) < tiebreak (snd c))"
  then show "resolveGroup arr r = (Some c, r)"
    by (intro resolveGroup_unique_top[where others = others]) auto
next
  assume "m \<in> (\<lambda>x. tiebreak (snd x)) ` set arr \<and>
    (\<forall>x \<in> set arr. tiebreak (snd x) \<le> m) \<and>
    tied = filter (\<lambda>x. tiebreak (snd x) = m) arr \<and> 1 < length tied"
  then show "resolveGroup arr r =
      ((case answers r (length (calls r)) of
          Inr i \<Rightarrow> at_index tied i
        | Inl msg \<Rightarrow> Some (hd tied)),
       r\<lparr>calls := calls r @ [(0, int (length tied) - 1)]\<rparr>)"
    by (intro resolveGroup_tied[where m = m]) auto
next
  fix i :: int
  assume "0 \<le> i \<and> i \<le> int (length tied) - 1"
  then show "at_index tied i = Some (tied ! nat i)" by (simp add: at_index_def)
qed

theorem C2_witness:
  "mset [(0 :: nat, ex_entry ''ann'' 30 10 ''under'' ''low''), (1 :: nat, ex_entry ''bob'' 30 90 ''under'' ''low'')]
     = add_mset (1 :: nat, ex_entry ''bob'' 30 90 ''under'' ''low'')
         (mset [(0 :: nat, ex_entry ''ann'' 30 10 ''under'' ''low'')]) \<and>
   tiebreak (ex_entry ''ann'' 30 10 ''under'' ''low'') < tiebreak (ex_entry ''bob'' 30 90 ''under'' ''low'') \<and>
   resolveGroup [(0 :: nat, ex_entry ''ann'' 30 10 ''under'' ''low''), (1 :: nat, ex_entry ''bob'' 30 90 ''under'' ''low'')]
       (scripted []) = (Some (1 :: nat, ex_entry ''bob'' 30 90 ''under'' ''low''), scripted []) \<and>
   resolveGroup [(1 :: nat, ex_entry ''bob'' 30 90 ''under'' ''low''), (0 :: nat, ex_entry ''ann'' 30 10 ''under'' ''low'')]
       (scripted []) = (Some (1 :: nat, ex_entry ''bob'' 30 90 ''under'' ''low''), scripted []) \<and>
   filter (\<lambda>x. tiebreak (snd x) = 40)
       [(0 :: nat, ex_entry ''cat'' 30 40 ''under'' ''low''), (1 :: nat, ex_entry ''dan'' 30 40 ''under'' ''low'')]
     = [(0 :: nat, ex_entry ''cat'' 30 40 ''under'' ''low''), (1 :: nat, ex_entry ''dan'' 30 40 ''under'' ''low'')] \<and>
   resolveGroup [(0 :: nat, ex_entry ''cat'' 30 40 ''under'' ''low''), (1 :: nat, ex_entry ''dan'' 30 40 ''under'' ''low'')]
       (scripted [Inr 1])
     = (Some (1 :: nat, ex_entry ''dan'' 30 40 ''under'' ''low''), (scripted [Inr 1])\<lparr>calls := [(0, 1)]\<rparr>) \<and>
   resolveGroup [(0 :: nat, ex_entry ''cat'' 30 40 ''under'' ''low''), (1 :: nat, ex_entry ''dan'' 30 40 ''under'' ''low'')]
       (scripted [Inl ''down''])
     = (Some (0 :: nat, ex_entry ''cat'' 30 40 ''under'' ''low''), (scripted [Inl ''down''])\<lparr>calls := [(0, 1)]\<rparr>)"
proof -
  let ?a = "(0 :: nat, ex_entry ''ann'' 30 10 ''under'' ''low'')"
  let ?b = "(1 :: nat, ex_entry ''bob'' 30 90 ''under'' ''low'')"
  let ?c = "(0 :: nat, ex_entry ''cat'' 30 40 ''under'' ''low'')"
  let ?d = "(1 :: nat, ex_entry ''dan'' 30 40 ''under'' ''low'')"
  have m1: "mset [?a, ?b] = add_mset ?b (mset [?a])" and m2: "mset [?b, ?a] = add_mset ?b (mset [?a])"
    by simp_all
  have lt: "tiebreak (ex_entry ''ann'' 30 10 ''under'' ''low'')
              < tiebreak (ex_entry ''bob'' 30 90 ''under'' ''low'')"
    by (simp add: ex_entry_def)
  then have lt': "\<forall>x \<in> set [?a]. tiebreak (snd x) < tiebreak (snd ?b)" by simp
  have r1: "resolveGroup [?a, ?b] (scripted []) = (Some ?b, scripted [])"
    using C2_group_representative[where arr = "[?a, ?b]" and c = ?b and others = "[?a]"
            and r = "scripted []"] m1 lt'
    by blast
  have r2: "resolveGroup [?b, ?a] (scripted []) = (Some ?b, scripted [])"
    using C2_group_representative[where arr = "[?b, ?a]" and c = ?b and others = "[?a]"
            and r = "scripted []"] m2 lt'
    by blast
  have t: "tiebreak (snd ?c) = 40" "tiebreak (snd ?d) = 40" by (simp_all add: ex_entry_def)
  have f: "filter (\<lambda>x. tiebreak (snd x) = 40) [?c, ?d] = [?c, ?d]" using t by simp
  have h1: "40 \<in> (\<lambda>x. tiebreak (snd x)) ` set [?c, ?d]" using t by force
  have h2: "\<forall>x \<in> set [?c, ?d]. tiebreak (snd x) \<le> 40" using t by simp
  have h3: "[?c, ?d] = filter (\<lambda>x. tiebreak (snd x) = 40) [?c, ?d]" using f by simp
  have h4: "1 < length [?c, ?d]" by simp
  have g1: "resolveGroup [?c, ?d] r =
      ((case answers r (length (calls r)) of
          Inr i \<Rightarrow> at_index [?c, ?d] i
        | Inl msg \<Rightarrow> Some (hd [?c, ?d])),
       r\<lparr>calls := calls r @ [(0, int (length [?c, ?d]) - 1)]\<rparr>)" for r
    using C2_group_representative[where arr = "[?c, ?d]" and m = 40 and tied = "[?c, ?d]" and r = r]
      h1 h2 h3 h4
    by blast
  have r3: "resolveGroup [?c, ?d] (scripted [Inr 1]) = (Some ?d, (scripted [Inr 1])\<lparr>calls := [(0, 1)]\<rparr>)"
    unfolding g1 by (simp add: scripted_def at_index_def)
  have r4: "resolveGroup [?c, ?d] (scripted [Inl ''down'']) =
              (Some ?c, (scripted [Inl ''down''])\<lparr>calls := [(0, 1)]\<rparr>)"
    unfolding g1 by (simp add: scripted_def)
  from m1 lt r1 r2 f r3 r4 show ?thesis by blast
qed


subsection \<open>Accepting the double down\<close>

lemma ddButton_accept:
  assumes "find_giveaway gid (giveaways w) = Some g" and "winner g = Set_to wn"
    and "doubleDown g = Some d" and "state d = Pending"
  shows "ddButton Dd_yes gid wid wid w =
     (case answers (rnd w) (length (calls (rnd w))) of
        Inl msg \<Rightarrow> (Random_failed, w\<lparr>rnd := (rnd w)\<lparr>calls := calls (rnd w) @ [(0, 100)]\<rparr>\<rparr>)
      | Inr r \<Rightarrow>
          if r \<ge> 50 then
            (Double_down_win (pot g),
             w\<lparr>giveaways :=
                 save_giveaway gid
                   (g\<lparr> winner := Set_to (wn\<lparr>payoutC := payoutC wn + pot g\<rparr>), pot := 0,
                       doubleDown := Some (d\<lparr>state := Yes_win\<rparr>) \<rparr>)
                   (giveaways w),
               rnd := (rnd w)\<lparr>calls := calls (rnd w) @ [(0, 100)]\<rparr>\<rparr>)
          else
            (Double_down_lose (max 0 (real_of_int \<lfloor>baseWinC wn\<rfloor>)),
             w\<lparr>giveaways :=
                 save_giveaway gid
                   (g\<lparr> pot := pot g + max 0 (real_of_int \<lfloor>baseWinC wn\<rfloor>),
                       winner := Set_to (wn\<lparr>payoutC := max 0 (payoutC wn - max 0 (real_of_int \<lfloor>baseWinC wn\<rfloor>))\<rparr>),
                       doubleDown := Some (d\<lparr>state := Yes_lose\<rparr>) \<rparr>)
                   (giveaways w),
               rnd := (rnd w)\<lparr>calls := calls (rnd w) @ [(0, 100)]\<rparr>\<rparr>))"
  using assms by (simp add: ddButton_def randomOrgInteger_def Let_def split: sum.splits)

lemma ex_parse:
  "parseInt ''50'' = Some 50" "parseInt ''7'' = Some 7"
  "parseFloat ''-1'' = Finite (- 1)" "parseFloat ''0'' = Finite 0" "parseFloat ''1'' = Finite 1"
  "toLowerCase ''under'' = ''under''" "toLowerCase ''low'' = ''low''"
  by (simp_all add: parseInt_def parseFloat_def isWhiteSpace_def isDigit_def digitOf_def
        decimalValue_def valueOf_def List.map_filter_simps exponentPart_def pow10_def
        toLowerCase_def lowerOf_def)

lemma ex_joined:
  "st \<in> {''-1'', ''0'', ''1''} \<Longrightarrow>
   modalJoin ''G-1'' ex_user (ex_fields st) 0 (ex_world [] xs) =
   (Joined,
    ex_world [\<lparr> entryId = (''ann'', 0), userId = ''ann'', username = ''ann#0'', main = 50, tiebreak = 7,
                stakeC = toJSON (parseFloat st), choice = ''under'', riskProfile = ''low'',
                joinedAt = 0, doubleDownDeadline = None \<rparr>] xs)"
  by (auto simp add: modalJoin_def ex_fields_def ex_user_def ex_parse ex_world_def ex_giveaway_def
        find_giveaway_def newEntry_def Let_def)

lemma ex_negative_resolved:
  "resolveGiveaway ''G-1'' \<lparr>edit_ok = True, now = 0\<rparr>
     (snd (modalJoin ''G-1'' ex_user (ex_fields ''-1'') 0 (ex_world [] [Inr 20, Inr 10]))) =
   (Returns,
    \<lparr> giveaways =
        [\<lparr> g_id = ''G-1'',
           entries = [\<lparr> entryId = (''ann'', 0), userId = ''ann'', username = ''ann#0'', main = 50,
                        tiebreak = 7, stakeC = Some (- 1), choice = ''under'', riskProfile = ''low'',
                        joinedAt = 0, doubleDownDeadline = Some 21600000 \<rparr>],
           pot = 700, ended = True, roll = Some 20,
           winner = Set_to \<lparr> w_userId = ''ann'', w_username = ''ann#0'', w_main = 50,
                      w_tiebreak = 7, w_choice = ''under'', stake = - 1,
                      payoutC = 29805 / 100, baseWinC = - (195 / 100), potShareC = 300 \<rparr>,
           result = Some (Resolved 20 1),
           doubleDown = Some \<lparr> state = Pending, deadline = 21600000, winnerId = ''ann'' \<rparr> \<rparr>],
       cfg = defaultConfig,
       rnd = (scripted [Inr 20, Inr 10])\<lparr>calls := [(0, 100)]\<rparr>,
       timers = [''G-1''] \<rparr>)"
  by (simp add: ex_joined ex_parse toJSON_def)
     (simp add: resolveGiveaway_def ex_world_def ex_giveaway_def scripted_def
        find_giveaway_def randomOrgInteger_def winnersCandidates_def isCandidate_def
        pickWinner_def objectKeys_def isArrayIndex_def grouped_def resolveGroup_def
        at_index_def finalWinner_def announce_def winnerRecord_def baseWin_def stakeOf_def
        multiplier_def prob_def potShareAmount_def potSharePercent_def defaultConfig_def
        Let_def enumerate_eq_zip)

text \<open>
  Claim C4, as the code has it. While the sub-game of a giveaway with a winner is pending,
  an accept by the user named in the button makes one request to Random.org with the range
  [0, 100]. An answer of 50 or more sets the state \<^verbatim>\<open>yes_win\<close>, adds the whole pot to the
  winner's payout and empties the pot. An answer below 50 sets the state \<^verbatim>\<open>yes_lose\<close>; the
  amount returned is the floor of the base win, or zero when that floor is negative; it is
  added to the pot and taken from the payout, which does not go below zero. A failed
  request changes no giveaway.
\<close>

theorem C4_double_down_accept:
  "find_giveaway gid (giveaways w) = Some g \<and> winner g = Set_to wn \<and>
   doubleDown g = Some d \<and> state d = Pending
   \<longrightarrow>
   calls (rnd (snd (ddButton Dd_yes gid wid wid w))) = calls (rnd w) @ [(0, 100)] \<and>
   (\<forall>r. answers (rnd w) (length (calls (rnd w))) = Inr r \<and> r \<ge> 50 \<longrightarrow>
        fst (ddButton Dd_yes gid wid wid w) = Double_down_win (pot g) \<and>
        find_giveaway gid (giveaways (snd (ddButton Dd_yes gid wid wid w))) =
          Some (g\<lparr> winner := Set_to (wn\<lparr>payoutC := payoutC wn + pot g\<rparr>), pot := 0,
                   doubleDown := Some (d\<lparr>state := Yes_win\<rparr>) \<rparr>)) \<and>
   (\<forall>r. answers (rnd w) (length (calls (rnd w))) = Inr r \<and> r < 50 \<longrightarrow>
        fst (ddButton Dd_yes gid wid wid w) = Double_down_lose (max 0 (real_of_int \<lfloor>baseWinC wn\<rfloor>)) \<and>
        find_giveaway gid (giveaways (snd (ddButton Dd_yes gid wid wid w))) =
          Some (g\<lparr> pot := pot g + max 0 (real_of_int \<lfloor>baseWinC wn\<rfloor>),
                   winner := Set_to (wn\<lparr>payoutC :=
                                 max 0 (payoutC wn - max 0 (real_of_int \<lfloor>baseWinC wn\<rfloor>))\<rparr>),
                   doubleDown := Some (d\<lparr>state := Yes_lose\<rparr>) \<rparr>) \<and>
        (0 \<le> baseWinC wn \<longrightarrow> max 0 (real_of_int \<lfloor>baseWinC wn\<rfloor>) = real_of_int \<lfloor>baseWinC wn\<rfloor>)) \<and>
   (\<forall>msg. answers (rnd w) (length (calls (rnd w))) = Inl msg \<longrightarrow>
        fst (ddButton Dd_yes gid wid wid w) = Random_failed \<and>
        giveaways (snd (ddButton Dd_yes gid wid wid w)) = giveaways w)"
proof
  assume h: "find_giveaway gid (giveaways w) = Some g \<and> winner g = Set_to wn \<and>
   doubleDown g = Some d \<and> state d = Pending"
  then have f: "find_giveaway gid (giveaways w) = Some g" by simp
  have gid: "g_id g = gid" using f by (rule find_giveaway_id)
  have eq: "ddButton Dd_yes gid wid wid w = 
     (case answers (rnd w) (length (calls (rnd w))) of
        Inl msg \<Rightarrow> (Random_failed, w\<lparr>rnd := (rnd w)\<lparr>calls := calls (rnd w) @ [(0, 100)]\<rparr>\<rparr>)
      | Inr r \<Rightarrow>
          if r \<ge> 50 then
            (Double_down_win (pot g),
             w\<lparr>giveaways :=
                 save_giveaway gid
                   (g\<lparr> winner := Set_to (wn\<lparr>payoutC := payoutC wn + pot g\<rparr>), pot := 0,
                       doubleDown := Some (d\<lparr>state := Yes_win\<rparr>) \<rparr>)
                   (giveaways w),
               rnd := (rnd w)\<lparr>calls := calls (rnd w) @ [(0, 100)]\<rparr>\<rparr>)
          else
            (Double_down_lose (max 0 (real_of_int \<lfloor>baseWinC wn\<rfloor>)),
             w\<lparr>giveaways :=
                 save_giveaway gid
                   (g\<lparr> pot := pot g + max 0 (real_of_int \<lfloor>baseWinC wn\<rfloor>),
                       winner := Set_to (wn\<lparr>payoutC := max 0 (payoutC wn - max 0 (real_of_int \<lfloor>baseWinC wn\<rfloor>))\<rparr>),
                       doubleDown := Some (d\<lparr>state := Yes_lose\<rparr>) \<rparr>)
                   (giveaways w),
               rnd := (rnd w)\<lparr>calls := calls (rnd w) @ [(0, 100)]\<rparr>\<rparr>))"
    using h by (intro ddButton_accept) auto
  show "calls (rnd (snd (ddButton Dd_yes gid wid wid w))) = calls (rnd w) @ [(0, 100)] \<and>
   (\<forall>r. answers (rnd w) (length (calls (rnd w))) = Inr r \<and> r \<ge> 50 \<longrightarrow>
        fst (ddButton Dd_yes gid wid wid w) = Double_down_win (pot g) \<and>
        find_giveaway gid (giveaways (snd (ddButton Dd_yes gid wid wid w))) =
          Some (g\<lparr> winner := Set_to (wn\<lparr>payoutC := payoutC wn + pot g\<rparr>), pot := 0,
                   doubleDown := Some (d\<lparr>state := Yes_win\<rparr>) \<rparr>)) \<and>
   (\<forall>r. answers (rnd w) (length (calls (rnd w))) = Inr r \<and> r < 50 \<longrightarrow>
        fst (ddButton Dd_yes gid wid wid w) = Double_down_lose (max 0 (real_of_int \<lfloor>baseWinC wn\<rfloor>)) \<and>
        find_giveaway gid (giveaways (snd (ddButton Dd_yes gid wid wid w))) =
          Some (g\<lparr> pot := pot g + max 0 (real_of_int \<lfloor>baseWinC wn\<rfloor>),
                   winner := Set_to (wn\<lparr>payoutC :=
                                 max 0 (payoutC wn - max 0 (real_of_int \<lfloor>baseWinC wn\<rfloor>))\<rparr>),
                   doubleDown := Some (d\<lparr>state := Yes_lose\<rparr>) \<rparr>) \<and>
        (0 \<le> baseWinC wn \<longrightarrow> max 0 (real_of_int \<lfloor>baseWinC wn\<rfloor>) = real_of_int \<lfloor>baseWinC wn\<rfloor>)) \<and>
   (\<forall>msg. answers (rnd w) (length (calls (rnd w))) = Inl msg \<longrightarrow>
        fst (ddButton Dd_yes gid wid wid w) = Random_failed \<and>
        giveaways (snd (ddButton Dd_yes gid wid wid w)) = giveaways w)"
    unfolding eq using f gid
    by (auto simp: find_save_same split: sum.splits)
qed


theorem C4_witness:
  "(\<exists>w1 g1 wn1 d1.
      resolveGiveaway ''G-1'' \<lparr>edit_ok = True, now = 0\<rparr>
        (ex_world [ex_entry ''ann'' 30 10 ''under'' ''high''] [Inr 20, Inr 49]) = (Returns, w1) \<and>
      find_giveaway ''G-1'' (giveaways w1) = Some g1 \<and> winner g1 = Set_to wn1 \<and>
      doubleDown g1 = Some d1 \<and> state d1 = Pending \<and>
      answers (rnd w1) (length (calls (rnd w1))) = Inr 49 \<and>
      pot g1 = 300 \<and> payoutC wn1 = 70319 / 100 \<and> baseWinC wn1 = 319 / 100 \<and>
      calls (rnd (snd (ddButton Dd_yes ''G-1'' ''ann'' ''ann'' w1))) = [(0, 100), (0, 100)] \<and>
      fst (ddButton Dd_yes ''G-1'' ''ann'' ''ann'' w1) = Double_down_lose 3 \<and>
      find_giveaway ''G-1'' (giveaways (snd (ddButton Dd_yes ''G-1'' ''ann'' ''ann'' w1))) =
        Some (g1\<lparr> pot := 303, winner := Set_to (wn1\<lparr>payoutC := 70019 / 100\<rparr>),
                  doubleDown := Some (d1\<lparr>state := Yes_lose\<rparr>) \<rparr>))
   \<and>
   (\<exists>w1 g1 wn1 d1.
      resolveGiveaway ''G-1'' \<lparr>edit_ok = True, now = 0\<rparr>
        (ex_world [ex_entry ''ann'' 30 10 ''under'' ''high''] [Inr 20, Inr 50]) = (Returns, w1) \<and>
      find_giveaway ''G-1'' (giveaways w1) = Some g1 \<and> winner g1 = Set_to wn1 \<and>
      doubleDown g1 = Some d1 \<and> state d1 = Pending \<and>
      answers (rnd w1) (length (calls (rnd w1))) = Inr 50 \<and>
      pot g1 = 300 \<and> payoutC wn1 = 70319 / 100 \<and>
      fst (ddButton Dd_yes ''G-1'' ''ann'' ''ann'' w1) = Double_down_win 300 \<and>
      find_giveaway ''G-1'' (giveaways (snd (ddButton Dd_yes ''G-1'' ''ann'' ''ann'' w1))) =
        Some (g1\<lparr> winner := Set_to (wn1\<lparr>payoutC := 100319 / 100\<rparr>), pot := 0,
                  doubleDown := Some (d1\<lparr>state := Yes_win\<rparr>) \<rparr>))"
proof -
  let ?wn = "\<lparr> w_userId = ''ann'', w_username = ''ann#0'', w_main = 30,
                      w_tiebreak = 10, w_choice = ''under'', stake = 1,
                      payoutC = 70319 / 100, baseWinC = 319 / 100, potShareC = 700 \<rparr>"
  let ?d = "\<lparr> state = Pending, deadline = 21600000, winnerId = ''ann'' \<rparr>"
  let ?g = "\<lparr> g_id = ''G-1'',
           entries = [(ex_entry ''ann'' 30 10 ''under'' ''high'')\<lparr>doubleDownDeadline := Some 21600000\<rparr>],
           pot = 300, ended = True, roll = Some 20,
           winner = Set_to ?wn,
           result = Some (Resolved 20 1),
           doubleDown = Some ?d \<rparr>"
  let ?w = "\<lambda>xs. \<lparr> giveaways = [?g], cfg = defaultConfig,
       rnd = (scripted (Inr 20 # xs))\<lparr>calls := [(0, 100)]\<rparr>, timers = [''G-1''] \<rparr>"
  have h: "find_giveaway ''G-1'' (giveaways (?w xs)) = Some ?g \<and> winner ?g = Set_to ?wn \<and>
           doubleDown ?g = Some ?d \<and> state ?d = Pending" for xs
    by (simp add: find_giveaway_def)
  have a: "answers (rnd (?w [Inr r])) (length (calls (rnd (?w [Inr r])))) = Inr r" for r
    by (simp add: scripted_def)
  have c: "calls (rnd (?w xs)) @ [(0, 100)] = [(0, 100), (0, 100)]" for xs by simp
  have v: "pot ?g = 300" "payoutC ?wn = 70319 / 100" "baseWinC ?wn = 319 / 100"
    "max 0 (real_of_int \<lfloor>baseWinC ?wn\<rfloor>) = 3"
    "pot ?g + max 0 (real_of_int \<lfloor>baseWinC ?wn\<rfloor>) = 303"
    "max 0 (payoutC ?wn - max 0 (real_of_int \<lfloor>baseWinC ?wn\<rfloor>)) = 70019 / 100"
    "payoutC ?wn + pot ?g = 100319 / 100"
    by simp_all
  note t = C4_double_down_accept[where gid = "''G-1''" and g = ?g and wn = ?wn and d = ?d
             and wid = "''ann''"]
  have lose:
    "calls (rnd (snd (ddButton Dd_yes ''G-1'' ''ann'' ''ann'' (?w [Inr 49])))) = [(0, 100), (0, 100)] \<and>
     fst (ddButton Dd_yes ''G-1'' ''ann'' ''ann'' (?w [Inr 49])) = Double_down_lose 3 \<and>
     find_giveaway ''G-1'' (giveaways (snd (ddButton Dd_yes ''G-1'' ''ann'' ''ann'' (?w [Inr 49])))) =
        Some (?g\<lparr> pot := 303, winner := Set_to (?wn\<lparr>payoutC := 70019 / 100\<rparr>),
                  doubleDown := Some (?d\<lparr>state := Yes_lose\<rparr>) \<rparr>)"
    using t[where w = "?w [Inr 49]"] h[of "[Inr 49]"] a[of 49] c[of "[Inr 49]"]
    unfolding v by force
  have win:
    "fst (ddButton Dd_yes ''G-1'' ''ann'' ''ann'' (?w [Inr 50])) = Double_down_win 300 \<and>
     find_giveaway ''G-1'' (giveaways (snd (ddButton Dd_yes ''G-1'' ''ann'' ''ann'' (?w [Inr 50])))) =
        Some (?g\<lparr> winner := Set_to (?wn\<lparr>payoutC := 100319 / 100\<rparr>), pot := 0,
                  doubleDown := Some (?d\<lparr>state := Yes_win\<rparr>) \<rparr>)"
    using t[where w = "?w [Inr 50]"] h[of "[Inr 50]"] a[of 50]
    unfolding v by force
  show ?thesis
    unfolding ex_resolved
    using lose win h[of "[Inr 49]"] h[of "[Inr 50]"] a[of 49] a[of 50] v(1-3)
    by (intro conjI exI[where x = "?w [Inr 49]"] exI[where x = "?w [Inr 50]"]
          exI[where x = ?g] exI[where x = ?wn] exI[where x = ?d]) auto
qed


text \<open>
  The claim as stated fails: a user joins with the stake text \<^verbatim>\<open>-1\<close>, wins with the roll 20
  and a base win of -1.95, accepts the double down and loses with the roll 10. The floor of
  the base win is -2, yet the pot stays at 700 and the payout at 298.05.
\<close>

theorem C4_counterexample:
  "\<exists>w1 g1 wn1 d1 w2 g2 wn2.
     resolveGiveaway ''G-1'' \<lparr>edit_ok = True, now = 0\<rparr>
       (snd (modalJoin ''G-1'' ex_user (ex_fields ''-1'') 0 (ex_world [] [Inr 20, Inr 10])))
       = (Returns, w1) \<and>
     find_giveaway ''G-1'' (giveaways w1) = Some g1 \<and> winner g1 = Set_to wn1 \<and>
     doubleDown g1 = Some d1 \<and> state d1 = Pending \<and>
     baseWinC wn1 = - (195 / 100) \<and> \<lfloor>baseWinC wn1\<rfloor> = - 2 \<and>
     answers (rnd w1) (length (calls (rnd w1))) = Inr 10 \<and>
     ddButton Dd_yes ''G-1'' ''ann'' ''ann'' w1 = (Double_down_lose 0, w2) \<and>
     find_giveaway ''G-1'' (giveaways w2) = Some g2 \<and> winner g2 = Set_to wn2 \<and>
     pot g1 = 700 \<and> pot g2 = 700 \<and> pot g2 \<noteq> pot g1 + real_of_int \<lfloor>baseWinC wn1\<rfloor> \<and>
     payoutC wn1 = 29805 / 100 \<and> payoutC wn2 = 29805 / 100 \<and>
     payoutC wn2 \<noteq> max 0 (payoutC wn1 - real_of_int \<lfloor>baseWinC wn1\<rfloor>)"
  unfolding ex_negative_resolved
  by (simp add: find_giveaway_def scripted_def ddButton_def randomOrgInteger_def Let_def)



subsection \<open>Triggers on a sub-game that is no longer pending\<close>

lemma ddButton_not_pending:
  assumes "find_giveaway gid (giveaways w) = Some g" and "doubleDown g = Some d"
    and "state d \<noteq> Pending"
  shows "ddButton act gid wid user w =
     ((case winner g of
         Set_to wn \<Rightarrow> if user \<noteq> wid then Only_the_winner else No_longer_available
       | _ \<Rightarrow> Giveaway_or_winner_not_found), w)"
  using assms by (simp add: ddButton_def split: field.splits)

lemma ddTimeout_not_pending:
  assumes "find_giveaway gid (giveaways w) = Some g" and "doubleDown g = Some d"
    and "state d \<noteq> Pending"
  shows "ddTimeout gid w = w"
  using assms by (simp add: ddTimeout_def)

lemma fire_not_pending:
  assumes "find_giveaway gid (giveaways w) = Some g" and "doubleDown g = Some d"
    and "state d \<noteq> Pending"
  shows "fire t gid w =
     ((case t of
         Timeout \<Rightarrow> None
       | Button act wid user \<Rightarrow>
           Some (case winner g of
                   Set_to wn \<Rightarrow> if user \<noteq> wid then Only_the_winner else No_longer_available
                 | _ \<Rightarrow> Giveaway_or_winner_not_found)), w)"
  using ddButton_not_pending[OF assms] ddTimeout_not_pending[OF assms]
  by (simp add: fire_def split: trigger.splits)

lemma fireAll_not_pending:
  assumes "find_giveaway gid (giveaways w) = Some g" and "doubleDown g = Some d"
    and "state d \<noteq> Pending"
  shows "fireAll ts gid w = w"
  by (induction ts) (simp_all add: fire_not_pending[OF assms])

text \<open>
  Claim C7, as the code has it. Once the sub-game of a giveaway has left the pending state,
  every trigger leaves the whole world as it is (sub-game state, winner payout and pot
  included), and so does every run of triggers: nothing leads back to pending. What is
  reported depends on the trigger: a button clicked by the user named in it answers
  "Double Down no longer available"; a button clicked by anyone else answers that only the
  winner can respond; a giveaway without winner answers "not found"; the timeout callback
  reports nothing.
\<close>

theorem C7_triggers_after_pending:
  "find_giveaway gid (giveaways w) = Some g \<and> doubleDown g = Some d \<and> state d \<noteq> Pending
   \<longrightarrow>
   snd (fire t gid w) = w \<and>
   fst (fire t gid w) =
     (case t of
        Timeout \<Rightarrow> None
      | Button act wid user \<Rightarrow>
          Some (case winner g of
                  Set_to wn \<Rightarrow> if user \<noteq> wid then Only_the_winner else No_longer_available
                | _ \<Rightarrow> Giveaway_or_winner_not_found)) \<and>
   fireAll ts gid w = w"
proof
  assume h: "find_giveaway gid (giveaways w) = Some g \<and> doubleDown g = Some d \<and> state d \<noteq> Pending"
  then have a: "find_giveaway gid (giveaways w) = Some g" and b: "doubleDown g = Some d"
    and c: "state d \<noteq> Pending" by auto
  show "snd (fire t gid w) = w \<and>
   fst (fire t gid w) =
     (case t of
        Timeout \<Rightarrow> None
      | Button act wid user \<Rightarrow>
          Some (case winner g of
                  Set_to wn \<Rightarrow> if user \<noteq> wid then Only_the_winner else No_longer_available
                | _ \<Rightarrow> Giveaway_or_winner_not_found)) \<and>
   fireAll ts gid w = w"
    by (simp add: fire_not_pending[OF a b c] fireAll_not_pending[OF a b c])
qed

lemma ex_declined:
  "ddButton Dd_no ''G-1'' ''ann'' ''ann''
     (snd (resolveGiveaway ''G-1'' \<lparr>edit_ok = True, now = 0\<rparr>
             (ex_world [ex_entry ''ann'' 30 10 ''under'' ''high''] [Inr 20]))) =
   (Declined,
    \<lparr> giveaways =
        [\<lparr> g_id = ''G-1'',
           entries = [(ex_entry ''ann'' 30 10 ''under'' ''high'')\<lparr>doubleDownDeadline := Some 21600000\<rparr>],
           pot = 300, ended = True, roll = Some 20,
           winner = Set_to \<lparr> w_userId = ''ann'', w_username = ''ann#0'', w_main = 30,
                      w_tiebreak = 10, w_choice = ''under'', stake = 1,
                      payoutC = 70319 / 100, baseWinC = 319 / 100, potShareC = 700 \<rparr>,
           result = Some (Resolved 20 1),
           doubleDown = Some \<lparr> state = No, deadline = 21600000, winnerId = ''ann'' \<rparr> \<rparr>],
       cfg = defaultConfig,
       rnd = (scripted [Inr 20])\<lparr>calls := [(0, 100)]\<rparr>,
       timers = [''G-1''] \<rparr>)"
  unfolding ex_resolved by (simp add: ddButton_def find_giveaway_def)

theorem C7_witness:
  "(\<exists>w g d. ddButton Dd_no ''G-1'' ''ann'' ''ann''
              (snd (resolveGiveaway ''G-1'' \<lparr>edit_ok = True, now = 0\<rparr>
                      (ex_world [ex_entry ''ann'' 30 10 ''under'' ''high''] [Inr 20])))
            = (Declined, w) \<and>
     find_giveaway ''G-1'' (giveaways w) = Some g \<and> doubleDown g = Some d \<and> state d \<noteq> Pending \<and>
     fire (Button Dd_yes ''ann'' ''ann'') ''G-1'' w = (Some No_longer_available, w) \<and>
     fire (Button Dd_no ''ann'' ''ann'') ''G-1'' w = (Some No_longer_available, w) \<and>
     fire Timeout ''G-1'' w = (None, w) \<and>
     fireAll [Button Dd_yes ''ann'' ''ann'', Timeout, Button Dd_no ''ann'' ''ann''] ''G-1'' w = w)"
proof -
  let ?wn = "\<lparr> w_userId = ''ann'', w_username = ''ann#0'', w_main = 30,
                      w_tiebreak = 10, w_choice = ''under'', stake = 1,
                      payoutC = 70319 / 100, baseWinC = 319 / 100, potShareC = 700 \<rparr>"
  let ?d = "\<lparr> state = No, deadline = 21600000, winnerId = ''ann'' \<rparr>"
  let ?g = "\<lparr> g_id = ''G-1'',
           entries = [(ex_entry ''ann'' 30 10 ''under'' ''high'')\<lparr>doubleDownDeadline := Some 21600000\<rparr>],
           pot = 300, ended = True, roll = Some 20,
           winner = Set_to ?wn,
           result = Some (Resolved 20 1),
           doubleDown = Some ?d \<rparr>"
  let ?w = "\<lparr> giveaways = [?g], cfg = defaultConfig,
       rnd = (scripted [Inr 20])\<lparr>calls := [(0, 100)]\<rparr>, timers = [''G-1''] \<rparr>"
  have h: "find_giveaway ''G-1'' (giveaways ?w) = Some ?g" "doubleDown ?g = Some ?d"
    "state ?d \<noteq> Pending" "winner ?g = Set_to ?wn"
    by (simp_all add: find_giveaway_def)
  note t = C7_triggers_after_pending[where gid = "''G-1''" and w = ?w and g = ?g and d = ?d]
  have f: "fire (Button act ''ann'' ''ann'') ''G-1'' ?w = (Some No_longer_available, ?w)" for act
    using t[where t = "Button act ''ann'' ''ann''"] h
    by (simp add: prod_eq_iff)
  have g: "fire Timeout ''G-1'' ?w = (None, ?w)"
    using t[where t = Timeout] h by (simp add: prod_eq_iff)
  have a: "fireAll [Button Dd_yes ''ann'' ''ann'', Timeout, Button Dd_no ''ann'' ''ann''] ''G-1'' ?w = ?w"
    using t[where ts = "[Button Dd_yes ''ann'' ''ann'', Timeout, Button Dd_no ''ann'' ''ann'']"] h
    by blast
  show ?thesis
    unfolding ex_declined
    using h(1-3) f[of Dd_yes] f[of Dd_no] g a
    by (intro exI[where x = ?w] exI[where x = ?g] exI[where x = ?d]) blast
qed


text \<open>
  The claim as stated fails: after the winner has declined, the timeout callback changes
  nothing and reports nothing, and a click by another user is answered with "only the
  winner can respond", not with "no longer available".
\<close>

theorem C7_counterexample:
  "\<exists>w g d. ddButton Dd_no ''G-1'' ''ann'' ''ann''
              (snd (resolveGiveaway ''G-1'' \<lparr>edit_ok = True, now = 0\<rparr>
                      (ex_world [ex_entry ''ann'' 30 10 ''under'' ''high''] [Inr 20])))
            = (Declined, w) \<and>
     find_giveaway ''G-1'' (giveaways w) = Some g \<and> doubleDown g = Some d \<and> state d = No \<and>
     fire Timeout ''G-1'' w = (None, w) \<and>
     fire (Button Dd_yes ''ann'' ''bob'') ''G-1'' w = (Some Only_the_winner, w) \<and>
     fire (Button Dd_no ''ann'' ''bob'') ''G-1'' w = (Some Only_the_winner, w)"
  unfolding ex_declined
  by (simp add: find_giveaway_def fire_def ddTimeout_def ddButton_def)


subsection \<open>The pot\<close>

lemma find_save:
  "g_id g1 = gid' \<Longrightarrow>
   find_giveaway gid (save_giveaway gid' g1 gs) =
     (if gid = gid' \<and> find_giveaway gid gs \<noteq> None then Some g1 else find_giveaway gid gs)"
  by (induction gs) (auto simp: find_giveaway_def)

lemma pot_resolve:
  assumes "find_giveaway gid (giveaways w) = Some g" and "0 \<le> pot g"
  shows "\<exists>g'. find_giveaway gid (giveaways (snd (resolveGiveaway gid' ev w))) = Some g' \<and> 0 \<le> pot g'"
proof (cases "find_giveaway gid' (giveaways w)")
  case None
  then show ?thesis using assms by (simp add: resolve_missing)
next
  case (Some g0)
  have id0: "g_id g0 = gid'" using Some by (rule find_giveaway_id)
  show ?thesis
  proof (cases "ended g0")
    case True
    then show ?thesis using assms Some by (simp add: resolve_ended)
  next
    case False
    show ?thesis
    proof (cases "answers (rnd w) (length (calls (rnd w)))")
      case (Inl msg)
      show ?thesis
        unfolding resolve_roll_failed[OF Some False Inl]
        using id0 assms Some by (auto simp: find_save)
    next
      case (Inr rl)
      show ?thesis
      proof (cases "winnersCandidates rl (entries g0) = []")
        case True
        show ?thesis
          unfolding resolve_no_winner[OF Some False Inr True]
          using id0 assms Some by (auto simp: find_save)
      next
        case ne: False
        obtain fw n r2 where pw: "pickWinner (winnersCandidates rl (entries g0))
           ((rnd w)\<lparr>calls := calls (rnd w) @ [(0, 100)]\<rparr>) = ((fw, n), r2)"
          by (metis prod.exhaust)
        show ?thesis
        proof (cases fw)
          case None
          then have "resolveGiveaway gid' ev w = (Throws, w\<lparr>rnd := r2\<rparr>)"
            using Some False Inr ne pw
            by (simp add: resolveGiveaway_def randomOrgInteger_def Let_def)
          then show ?thesis using assms by simp
        next
          case (Some c)
          show ?thesis
            unfolding resolve_winner[OF \<open>find_giveaway gid' (giveaways w) = Some g0\<close> False Inr ne
                        pw[unfolded Some]]
            using id0 assms by (auto simp: announce_def Let_def find_save)
        qed
      qed
    qed
  qed
qed

lemma pot_ddButton:
  assumes "find_giveaway gid (giveaways w) = Some g" and "0 \<le> pot g"
  shows "\<exists>g'. find_giveaway gid (giveaways (snd (ddButton act gid' wid user w))) = Some g' \<and> 0 \<le> pot g'"
proof (cases "find_giveaway gid' (giveaways w)")
  case None
  then show ?thesis using assms by (simp add: ddButton_def)
next
  case (Some g0)
  have id0: "g_id g0 = gid'" using Some by (rule find_giveaway_id)
  show ?thesis
    using assms Some id0
    by (auto simp: ddButton_def randomOrgInteger_def Let_def find_save
             split: field.splits option.splits dd_action.splits sum.splits)
qed

lemma pot_ddTimeout:
  assumes "find_giveaway gid (giveaways w) = Some g" and "0 \<le> pot g"
  shows "\<exists>g'. find_giveaway gid (giveaways (ddTimeout gid' w)) = Some g' \<and> 0 \<le> pot g'"
proof (cases "find_giveaway gid' (giveaways w)")
  case None
  then show ?thesis using assms by (simp add: ddTimeout_def)
next
  case (Some g0)
  have id0: "g_id g0 = gid'" using Some by (rule find_giveaway_id)
  show ?thesis
    using assms Some id0
    by (auto simp: ddTimeout_def find_save split: option.splits)
qed

text \<open>
  Claim C9. A giveaway whose pot is not negative keeps a pot that is not negative through
  every resolution (error, no winner, winner, or none at all), every click on a double-down
  button (declined, won, lost, or refused) and every double-down timeout, whether they
  address this giveaway or another one.
\<close>

theorem C9_pot_never_negative:
  "find_giveaway gid (giveaways w) = Some g \<and> 0 \<le> pot g
   \<longrightarrow>
   (\<exists>g'. find_giveaway gid (giveaways (snd (resolveGiveaway gid' ev w))) = Some g' \<and> 0 \<le> pot g') \<and>
   (\<exists>g'. find_giveaway gid (giveaways (snd (ddButton act gid' wid user w))) = Some g' \<and> 0 \<le> pot g') \<and>
   (\<exists>g'. find_giveaway gid (giveaways (ddTimeout gid' w)) = Some g' \<and> 0 \<le> pot g')"
  using pot_resolve pot_ddButton pot_ddTimeout by blast


theorem C9_witness:
  "find_giveaway ''G-1'' (giveaways (ex_world [ex_entry ''ann'' 30 10 ''under'' ''high''] [Inr 20]))
     = Some (ex_giveaway [ex_entry ''ann'' 30 10 ''under'' ''high'']) \<and>
   0 \<le> pot (ex_giveaway [ex_entry ''ann'' 30 10 ''under'' ''high'']) \<and>
   (\<exists>g'. find_giveaway ''G-1''
           (giveaways (snd (resolveGiveaway ''G-1'' \<lparr>edit_ok = True, now = 0\<rparr>
                              (ex_world [ex_entry ''ann'' 30 10 ''under'' ''high''] [Inr 20]))))
           = Some g' \<and> 0 \<le> pot g') \<and>
   (\<exists>g'. find_giveaway ''G-1''
           (giveaways (snd (ddButton Dd_yes ''G-1'' ''ann'' ''ann''
                              (ex_world [ex_entry ''ann'' 30 10 ''under'' ''high''] [Inr 20]))))
           = Some g' \<and> 0 \<le> pot g') \<and>
   (\<exists>g'. find_giveaway ''G-1''
           (giveaways (ddTimeout ''G-1'' (ex_world [ex_entry ''ann'' 30 10 ''under'' ''high''] [Inr 20])))
           = Some g' \<and> 0 \<le> pot g')"
proof -
  let ?w = "ex_world [ex_entry ''ann'' 30 10 ''under'' ''high''] [Inr 20]"
  let ?g = "ex_giveaway [ex_entry ''ann'' 30 10 ''under'' ''high'']"
  have h1: "find_giveaway ''G-1'' (giveaways ?w) = Some ?g"
    by (simp add: ex_world_def ex_giveaway_def find_giveaway_def)
  have h2: "0 \<le> pot ?g" by (simp add: ex_giveaway_def)
  show ?thesis
    using C9_pot_never_negative[where gid = "''G-1''" and gid' = "''G-1''" and w = ?w and g = ?g
            and ev = "\<lparr>edit_ok = True, now = 0\<rparr>" and act = Dd_yes and wid = "''ann''"
            and user = "''ann''"] h1 h2
    by blast
qed

subsection \<open>Joining\<close>










subsection \<open>Further properties of the selection and of the sub-game\<close>

text \<open>
  Property X1. The entry that the selection returns as final winner is the entry at its
  position in the list of entries, and it satisfies the candidate predicate for the roll.
\<close>

theorem X1_final_winner_is_a_candidate:
  "pickWinner (winnersCandidates rl es) r = ((Some (i, e), n), r')
   \<longrightarrow>
   i < length es \<and> es ! i = e \<and>
   (choice e = ''under'' \<and> rl \<le> main e \<or> choice e = ''over'' \<and> rl \<ge> main e)"
  using winner_is_candidate by blast

theorem X1_witness:
  "pickWinner (winnersCandidates 20 [ex_entry ''ann'' 30 10 ''under'' ''high'']) (scripted [])
     = ((Some (0, ex_entry ''ann'' 30 10 ''under'' ''high''), 1), scripted []) \<and>
   choice (ex_entry ''ann'' 30 10 ''under'' ''high'') = ''under'' \<and>
   20 \<le> main (ex_entry ''ann'' 30 10 ''under'' ''high'')"
proof -
  let ?e = "ex_entry ''ann'' 30 10 ''under'' ''high''"
  have h: "pickWinner (winnersCandidates 20 [?e]) (scripted []) = ((Some (0, ?e), 1), scripted [])"
    by (simp add: ex_candidates ex_pick)
  have o: "choice ?e \<noteq> ''over''" by (simp add: ex_entry_def)
  from X1_final_winner_is_a_candidate[where rl = 20 and es = "[?e]" and r = "scripted []"
         and i = 0 and e = ?e and n = 1 and r' = "scripted []"] h o
  have "choice ?e = ''under'' \<and> 20 \<le> main ?e" by blast
  with h show ?thesis by blast
qed

lemma ddButton_decline:
  assumes "find_giveaway gid (giveaways w) = Some g" and "winner g = Set_to wn"
    and "doubleDown g = Some d" and "state d = Pending"
  shows "ddButton Dd_no gid wid wid w =
           (Declined,
            w\<lparr>giveaways := save_giveaway gid (g\<lparr>doubleDown := Some (d\<lparr>state := No\<rparr>)\<rparr>) (giveaways w)\<rparr>)"
  using assms by (simp add: ddButton_def)

lemma ddTimeout_pending:
  assumes "find_giveaway gid (giveaways w) = Some g"
    and "doubleDown g = Some d" and "state d = Pending"
  shows "ddTimeout gid w =
           w\<lparr>giveaways := save_giveaway gid (g\<lparr>doubleDown := Some (d\<lparr>state := No\<rparr>)\<rparr>) (giveaways w)\<rparr>"
  using assms by (simp add: ddTimeout_def)

text \<open>
  Property X2. While the sub-game is pending, a decline by the user named in the button and
  the timeout both set the state \<^verbatim>\<open>no\<close> and change nothing else of the giveaway: payout
  and pot stay, and Random.org is not asked.
\<close>

theorem X2_decline_and_timeout:
  "find_giveaway gid (giveaways w) = Some g \<and> winner g = Set_to wn \<and>
   doubleDown g = Some d \<and> state d = Pending
   \<longrightarrow>
   fst (ddButton Dd_no gid wid wid w) = Declined \<and>
   find_giveaway gid (giveaways (snd (ddButton Dd_no gid wid wid w))) =
     Some (g\<lparr>doubleDown := Some (d\<lparr>state := No\<rparr>)\<rparr>) \<and>
   rnd (snd (ddButton Dd_no gid wid wid w)) = rnd w \<and>
   find_giveaway gid (giveaways (ddTimeout gid w)) =
     Some (g\<lparr>doubleDown := Some (d\<lparr>state := No\<rparr>)\<rparr>) \<and>
   rnd (ddTimeout gid w) = rnd w"
proof
  assume h: "find_giveaway gid (giveaways w) = Some g \<and> winner g = Set_to wn \<and>
   doubleDown g = Some d \<and> state d = Pending"
  then have f: "find_giveaway gid (giveaways w) = Some g" and wn: "winner g = Set_to wn"
    and d: "doubleDown g = Some d" and p: "state d = Pending" by auto
  have gid: "g_id g = gid" using f by (rule find_giveaway_id)
  show "fst (ddButton Dd_no gid wid wid w) = Declined \<and>
   find_giveaway gid (giveaways (snd (ddButton Dd_no gid wid wid w))) =
     Some (g\<lparr>doubleDown := Some (d\<lparr>state := No\<rparr>)\<rparr>) \<and>
   rnd (snd (ddButton Dd_no gid wid wid w)) = rnd w \<and>
   find_giveaway gid (giveaways (ddTimeout gid w)) =
     Some (g\<lparr>doubleDown := Some (d\<lparr>state := No\<rparr>)\<rparr>) \<and>
   rnd (ddTimeout gid w) = rnd w"
    using f gid
    by (simp add: ddButton_decline[OF f wn d p] ddTimeout_pending[OF f d p] find_save_same)
qed

theorem X2_witness:
  "\<exists>w g wn d.
      resolveGiveaway ''G-1'' \<lparr>edit_ok = True, now = 0\<rparr>
        (ex_world [ex_entry ''ann'' 30 10 ''under'' ''high''] [Inr 20]) = (Returns, w) \<and>
      find_giveaway ''G-1'' (giveaways w) = Some g \<and> winner g = Set_to wn \<and>
      doubleDown g = Some d \<and> state d = Pending \<and>
      fst (ddButton Dd_no ''G-1'' ''ann'' ''ann'' w) = Declined \<and>
      find_giveaway ''G-1'' (giveaways (snd (ddButton Dd_no ''G-1'' ''ann'' ''ann'' w))) =
        Some (g\<lparr>doubleDown := Some (d\<lparr>state := No\<rparr>)\<rparr>) \<and>
      find_giveaway ''G-1'' (giveaways (ddTimeout ''G-1'' w)) =
        Some (g\<lparr>doubleDown := Some (d\<lparr>state := No\<rparr>)\<rparr>)"
proof -
  let ?wn = "\<lparr> w_userId = ''ann'', w_username = ''ann#0'', w_main = 30,
                      w_tiebreak = 10, w_choice = ''under'', stake = 1,
                      payoutC = 70319 / 100, baseWinC = 319 / 100, potShareC = 700 \<rparr>"
  let ?d = "\<lparr> state = Pending, deadline = 21600000, winnerId = ''ann'' \<rparr>"
  let ?g = "\<lparr> g_id = ''G-1'',
           entries = [(ex_entry ''ann'' 30 10 ''under'' ''high'')\<lparr>doubleDownDeadline := Some 21600000\<rparr>],
           pot = 300, ended = True, roll = Some 20,
           winner = Set_to ?wn,
           result = Some (Resolved 20 1),
           doubleDown = Some ?d \<rparr>"
  let ?w = "\<lparr> giveaways = [?g], cfg = defaultConfig,
       rnd = (scripted [Inr 20])\<lparr>calls := [(0, 100)]\<rparr>, timers = [''G-1''] \<rparr>"
  have h: "find_giveaway ''G-1'' (giveaways ?w) = Some ?g" "winner ?g = Set_to ?wn"
           "doubleDown ?g = Some ?d" "state ?d = Pending"
    by (simp_all add: find_giveaway_def)
  have c: "fst (ddButton Dd_no ''G-1'' ''ann'' ''ann'' ?w) = Declined \<and>
      find_giveaway ''G-1'' (giveaways (snd (ddButton Dd_no ''G-1'' ''ann'' ''ann'' ?w))) =
        Some (?g\<lparr>doubleDown := Some (?d\<lparr>state := No\<rparr>)\<rparr>) \<and>
      find_giveaway ''G-1'' (giveaways (ddTimeout ''G-1'' ?w)) =
        Some (?g\<lparr>doubleDown := Some (?d\<lparr>state := No\<rparr>)\<rparr>)"
    using X2_decline_and_timeout[where gid = "''G-1''" and w = ?w and g = ?g and wn = ?wn
            and d = ?d and wid = "''ann''"] h
    by blast
  show ?thesis
    unfolding ex_resolved
    using h c
    by (intro exI[where x = ?w] exI[where x = ?g] exI[where x = ?wn] exI[where x = ?d]) blast
qed

text \<open>
  Property X3. A double-down button clicked by a user other than the one named in it
  changes nothing and is answered with "only the winner can respond", whatever the state
  of the sub-game.
\<close>

theorem X3_only_the_winner:
  "find_giveaway gid (giveaways w) = Some g \<and> winner g = Set_to wn \<and> user \<noteq> wid
   \<longrightarrow> ddButton act gid wid user w = (Only_the_winner, w)"
  by (simp add: ddButton_def)


theorem X3_witness:
  "\<exists>w g wn.
      resolveGiveaway ''G-1'' \<lparr>edit_ok = True, now = 0\<rparr>
        (ex_world [ex_entry ''ann'' 30 10 ''under'' ''high''] [Inr 20]) = (Returns, w) \<and>
      find_giveaway ''G-1'' (giveaways w) = Some g \<and> winner g = Set_to wn \<and>
      ''bob'' \<noteq> ''ann'' \<and>
      ddButton Dd_yes ''G-1'' ''ann'' ''bob'' w = (Only_the_winner, w)"
proof -
  let ?wn = "\<lparr> w_userId = ''ann'', w_username = ''ann#0'', w_main = 30,
                      w_tiebreak = 10, w_choice = ''under'', stake = 1,
                      payoutC = 70319 / 100, baseWinC = 319 / 100, potShareC = 700 \<rparr>"
  let ?d = "\<lparr> state = Pending, deadline = 21600000, winnerId = ''ann'' \<rparr>"
  let ?g = "\<lparr> g_id = ''G-1'',
           entries = [(ex_entry ''ann'' 30 10 ''under'' ''high'')\<lparr>doubleDownDeadline := Some 21600000\<rparr>],
           pot = 300, ended = True, roll = Some 20,
           winner = Set_to ?wn,
           result = Some (Resolved 20 1),
           doubleDown = Some ?d \<rparr>"
  let ?w = "\<lparr> giveaways = [?g], cfg = defaultConfig,
       rnd = (scripted [Inr 20])\<lparr>calls := [(0, 100)]\<rparr>, timers = [''G-1''] \<rparr>"
  have h: "find_giveaway ''G-1'' (giveaways ?w) = Some ?g" "winner ?g = Set_to ?wn"
    by (simp_all add: find_giveaway_def)
  have n: "''bob'' \<noteq> ''ann''" by simp
  have c: "ddButton Dd_yes ''G-1'' ''ann'' ''bob'' ?w = (Only_the_winner, ?w)"
    using X3_only_the_winner[where gid = "''G-1''" and w = ?w and g = ?g and wn = ?wn
            and user = "''bob''" and wid = "''ann''" and act = Dd_yes] h n
    by blast
  show ?thesis
    unfolding ex_resolved
    using h c n
    by (intro exI[where x = ?w] exI[where x = ?g] exI[where x = ?wn]) blast
qed

end
